theory Spec2Isabelle
  imports Main
begin

section \<open>The usage graph of \<open>lib/optimize/InnerGraphPlugin.js\<close>\<close>

text \<open>
  JavaScript objects are compared by identity. A \<open>TopLevelSymbol\<close> and a
  \<open>PureExpressionDependency\<close> therefore carry an allocation number next to the fields
  the constructor stores; two objects are the same object iff the numbers agree.
  The field \<open>innerGraph\<close> of a symbol is a reference to the one \<open>Map\<close> of the module
  (\<open>parser.state.harmonyInnerGraph\<close>); the model passes that map explicitly.
\<close>

datatype TopLevelSymbol = TopLevelSymbol (symbol_ident: nat) (symbol_name: string)

datatype PureExpressionDependency =
  PureExpressionDependency (dep_ident: nat) (dep_range: "int \<times> int") (dep_loc: nat)

text \<open>Keys of the map: \<open>TopLevelSymbol | Dependency\<close>.\<close>

datatype node = SymbolKey TopLevelSymbol | DependencyKey PureExpressionDependency

text \<open>Members of a value set: \<open>string | TopLevelSymbol\<close>.\<close>

datatype item = Str string | Sym TopLevelSymbol

text \<open>
  A stored value is \<open>true\<close> or a \<open>Set\<close>; \<open>undefined\<close> (a key that is absent, or a key
  whose value was set to \<open>undefined\<close>) is \<open>None\<close>. A \<open>Set\<close> is the list of its members in
  insertion order, without duplicates; a \<open>Map\<close> is the list of its entries in insertion
  order of the keys.
\<close>

datatype info = InfoTrue | InfoSet "item list"

type_synonym InnerGraph = "(node \<times> info option) list"

text \<open>\<open>Map.prototype.get\<close>.\<close>

fun graph_get :: "InnerGraph \<Rightarrow> node \<Rightarrow> info option" where
  "graph_get [] k = None"
| "graph_get ((k', v) # g) k = (if k' = k then v else graph_get g k)"

text \<open>\<open>Map.prototype.set\<close>: an existing key keeps its position, a new key goes last.\<close>

fun graph_set :: "node \<Rightarrow> info option \<Rightarrow> InnerGraph \<Rightarrow> InnerGraph" where
  "graph_set k v [] = [(k, v)]"
| "graph_set k v ((k', v') # g) =
     (if k' = k then (k, v) # g else (k', v') # graph_set k v g)"

text \<open>\<open>Map.prototype.keys\<close>.\<close>

definition graph_keys :: "InnerGraph \<Rightarrow> node list" where
  "graph_keys g = map fst g"

text \<open>\<open>Set.prototype.add\<close> and \<open>Set.prototype.delete\<close>.\<close>

definition set_add :: "'a \<Rightarrow> 'a list \<Rightarrow> 'a list" where
  "set_add x xs = (if x \<in> set xs then xs else xs @ [x])"

definition set_delete :: "'a \<Rightarrow> 'a list \<Rightarrow> 'a list" where
  "set_delete x xs = removeAll x xs"

subsection \<open>\<open>TopLevelSymbol.addDependency\<close> (lines 46--55)\<close>

text \<open>The argument \<open>dep\<close>: \<open>string | TopLevelSymbol | true\<close>.\<close>

datatype dep = DepTrue | DepItem item

text \<open>
  \<open>info.add(dep)\<close> mutates the set stored under \<open>this\<close>; no other key holds that set
  object, so the mutation is the replacement of the entry of \<open>this\<close>.
\<close>

definition addDependency :: "TopLevelSymbol \<Rightarrow> dep \<Rightarrow> InnerGraph \<Rightarrow> InnerGraph" where
  "addDependency this d innerGraph =
     (let info = graph_get innerGraph (SymbolKey this) in
      case d of
        DepTrue \<Rightarrow> graph_set (SymbolKey this) (Some InfoTrue) innerGraph
      | DepItem i \<Rightarrow>
          (case info of
             None \<Rightarrow> graph_set (SymbolKey this) (Some (InfoSet [i])) innerGraph
           | Some InfoTrue \<Rightarrow> innerGraph
           | Some (InfoSet s) \<Rightarrow>
               graph_set (SymbolKey this) (Some (InfoSet (set_add i s))) innerGraph))"

text \<open>
  The behaviour in the words of the specification: nothing happens on an always-used
  value; the sentinel makes the value always-used; any other target joins the set,
  which is created when the value is unset.
\<close>

definition addDependency_spec :: "TopLevelSymbol \<Rightarrow> dep \<Rightarrow> InnerGraph \<Rightarrow> InnerGraph" where
  "addDependency_spec this d innerGraph =
     (if graph_get innerGraph (SymbolKey this) = Some InfoTrue then innerGraph
      else if d = DepTrue then graph_set (SymbolKey this) (Some InfoTrue) innerGraph
      else
        (case (d, graph_get innerGraph (SymbolKey this)) of
           (DepItem i, Some (InfoSet s)) \<Rightarrow>
             graph_set (SymbolKey this) (Some (InfoSet (set_add i s))) innerGraph
         | (DepItem i, _) \<Rightarrow> graph_set (SymbolKey this) (Some (InfoSet [i])) innerGraph
         | (DepTrue, _) \<Rightarrow> innerGraph))"

subsection \<open>Flattening (lines 86--120 of the \<open>finish\<close> hook)\<close>

text \<open>
  Lines 105--107: the strings of \<open>itemValue\<close> are added to \<open>newSet\<close>, symbols are
  skipped.
\<close>

fun add_strings :: "item list \<Rightarrow> item list \<Rightarrow> item list" where
  "add_strings [] newSet = newSet"
| "add_strings (Str s # itemValue) newSet = add_strings itemValue (set_add (Str s) newSet)"
| "add_strings (Sym t # itemValue) newSet = add_strings itemValue newSet"

text \<open>
  \<open>expand\<close> closes over \<open>innerGraph\<close> and \<open>unexpanded\<close> and mutates both; here it takes
  and returns the pair. \<open>expand_items\<close> is the loop \<open>for (const item of value)\<close> of lines
  94--110 together with lines 111--115 that follow it: its arguments are the key, the
  members still to visit and \<open>newSet\<close>. The \<open>return\<close> of line 102 leaves the loop and the
  function at once.
\<close>

function (sequential)
  expand :: "node \<Rightarrow> InnerGraph \<times> node list \<Rightarrow> InnerGraph \<times> node list" and
  expand_items ::
    "node \<Rightarrow> item list \<Rightarrow> item list \<Rightarrow> InnerGraph \<times> node list \<Rightarrow> InnerGraph \<times> node list"
where
  "expand key (innerGraph, unexpanded) =
     (if key \<notin> set unexpanded then (innerGraph, unexpanded)
      else
        (case graph_get innerGraph key of
           None \<Rightarrow> (innerGraph, set_delete key unexpanded)
         | Some InfoTrue \<Rightarrow> (innerGraph, set_delete key unexpanded)
         | Some (InfoSet val) \<Rightarrow>
             expand_items key val [] (innerGraph, set_delete key unexpanded)))"
| "expand_items key [] newSet (innerGraph, unexpanded) =
     (if newSet = [] then (graph_set key None innerGraph, unexpanded)
      else (graph_set key (Some (InfoSet newSet)) innerGraph, unexpanded))"
| "expand_items key (Str s # rest) newSet (innerGraph, unexpanded) =
     expand_items key rest (set_add (Str s) newSet) (innerGraph, unexpanded)"
| "expand_items key (Sym t # rest) newSet (innerGraph, unexpanded) =
     (case expand (SymbolKey t) (innerGraph, unexpanded) of
        (innerGraph', unexpanded') \<Rightarrow>
          (case graph_get innerGraph' (SymbolKey t) of
             Some InfoTrue \<Rightarrow> (graph_set key (Some InfoTrue) innerGraph', unexpanded')
           | None \<Rightarrow> expand_items key rest newSet (innerGraph', unexpanded')
           | Some (InfoSet itemValue) \<Rightarrow>
               expand_items key rest (add_strings itemValue newSet)
                 (innerGraph', unexpanded')))"
  by pat_completeness auto

lemma length_set_delete_le: "length (set_delete x xs) \<le> length xs"
  by (simp add: set_delete_def)

lemma length_set_delete_less: "x \<in> set xs \<Longrightarrow> length (set_delete x xs) < length xs"
  unfolding set_delete_def by (induction xs) (auto simp: less_Suc_eq_le)

text \<open>
  The recursion is nested: the loop continues on the state that the inner call of
  \<open>expand\<close> returns. Wherever the recursion is defined it does not enlarge the working
  set, which is what the termination proof needs.
\<close>

lemma expand_shrinks_dom:
  "expand_expand_items_dom (Inl (key, st)) \<Longrightarrow>
     length (snd (expand key st)) \<le> length (snd st)"
  "expand_expand_items_dom (Inr (key, xs, ns, st)) \<Longrightarrow>
     length (snd (expand_items key xs ns st)) \<le> length (snd st)"
proof (induction key st and key xs ns st rule: expand_expand_items.pinduct)
  case (1 key innerGraph unexpanded)
  show ?case
  proof (cases "key \<in> set unexpanded")
    case False
    then show ?thesis using 1(1) by (simp add: expand.psimps)
  next
    case True
    show ?thesis
    proof (cases "graph_get innerGraph key")
      case None
      then show ?thesis
        using 1(1) True by (simp add: expand.psimps length_set_delete_le)
    next
      case (Some v)
      show ?thesis
      proof (cases v)
        case InfoTrue
        then show ?thesis
          using 1(1) True Some by (simp add: expand.psimps length_set_delete_le)
      next
        case (InfoSet val)
        have "length (snd (expand_items key val [] (innerGraph, set_delete key unexpanded)))
                \<le> length (set_delete key unexpanded)"
          using 1(2)[of v val] True Some InfoSet by simp
        then show ?thesis
          using 1(1) True Some InfoSet length_set_delete_le[of key unexpanded]
          by (simp add: expand.psimps)
      qed
    qed
  qed
next
  case (2 key newSet innerGraph unexpanded)
  then show ?case by (simp add: expand_items.psimps)
next
  case (3 key s rest newSet innerGraph unexpanded)
  then show ?case by (simp add: expand_items.psimps)
next
  case (4 key t rest newSet innerGraph unexpanded)
  obtain g' u' where e: "expand (SymbolKey t) (innerGraph, unexpanded) = (g', u')"
    by (cases "expand (SymbolKey t) (innerGraph, unexpanded)")
  have le: "length u' \<le> length unexpanded" using 4(2) e by simp
  show ?case
  proof (cases "graph_get g' (SymbolKey t)")
    case None
    then show ?thesis
      using 4(1) 4(3)[of g' u'] e le by (simp add: expand_items.psimps)
  next
    case (Some v)
    show ?thesis
    proof (cases v)
      case InfoTrue
      then show ?thesis using 4(1) e le Some by (simp add: expand_items.psimps)
    next
      case (InfoSet itemValue)
      then show ?thesis
        using 4(1) 4(4)[of g' u' v itemValue] e le Some
        by (simp add: expand_items.psimps)
    qed
  qed
qed

text \<open>
  The measure: the size of the working set, then (for the loop) the number of members
  still to visit. A call of \<open>expand\<close> that gets past line 89 has deleted its key.
\<close>

lemma expand_expand_items_total: "All expand_expand_items_dom"
proof (relation
    "measures
      [\<lambda>x. case x of Inl (k, g, u) \<Rightarrow> length u | Inr (k, xs, ns, g, u) \<Rightarrow> length u,
       \<lambda>x. case x of Inl (k, g, u) \<Rightarrow> 0 | Inr (k, xs, ns, g, u) \<Rightarrow> Suc (length xs)]",
    goal_cases)
  case 1
  then show ?case by simp
next
  case (2 key innerGraph unexpanded x2 x2a)
  then show ?case by (simp add: length_set_delete_less)
next
  case (3 key s rest newSet innerGraph unexpanded)
  then show ?case by simp
next
  case (4 key t rest newSet innerGraph unexpanded)
  then show ?case by simp
next
  case (5 key t rest newSet innerGraph unexpanded x y)
  then show ?case
    using expand_shrinks_dom(1)[of "SymbolKey t" "(innerGraph, unexpanded)"]
    by (cases "length y = length unexpanded") (auto simp: eq_snd_iff dest: sym)
next
  case (6 key t rest newSet innerGraph unexpanded x y x2 x2a)
  then show ?case
    using expand_shrinks_dom(1)[of "SymbolKey t" "(innerGraph, unexpanded)"]
    by (cases "length y = length unexpanded") (auto simp: eq_snd_iff dest: sym)
qed

termination expand
  by (rule expand_expand_items_total)

declare expand.simps [simp del]

text \<open>
  Lines 118--120, \<open>for (const item of unexpanded) expand(item)\<close>: the iterator of a
  \<open>Set\<close> walks the entries in insertion order and passes over an entry that has been
  deleted before the iterator reaches it. The first argument is the list of entries
  the iterator still has in front of it.
\<close>

fun expand_all :: "node list \<Rightarrow> InnerGraph \<times> node list \<Rightarrow> InnerGraph \<times> node list" where
  "expand_all [] st = st"
| "expand_all (item # rest) (innerGraph, unexpanded) =
     (if item \<in> set unexpanded then expand_all rest (expand item (innerGraph, unexpanded))
      else expand_all rest (innerGraph, unexpanded))"

text \<open>Lines 87--120 as a whole; the result is the map and the working set left over.\<close>

definition flatten_state :: "InnerGraph \<Rightarrow> InnerGraph \<times> node list" where
  "flatten_state innerGraph =
     expand_all (graph_keys innerGraph) (innerGraph, graph_keys innerGraph)"

definition flatten :: "InnerGraph \<Rightarrow> InnerGraph" where
  "flatten innerGraph = fst (flatten_state innerGraph)"


subsection \<open>Syntax tree nodes handed over by the parser\<close>

text \<open>
  Only what the plugin reads of a node is kept: its \<open>type\<close> (the constructor), its
  \<open>range\<close> (start and end offset), the operands of a conditional expression. Every
  expression type that the plugin does not test is \<open>OtherExpression\<close>.
\<close>

datatype Expression =
    Identifier string "int \<times> int"
  | Literal "int \<times> int"
  | ConditionalExpression Expression Expression Expression "int \<times> int"
  | FunctionExpression "int \<times> int"
  | ArrowFunctionExpression "int \<times> int"
  | ClassExpression "int \<times> int"
  | CallExpression "int \<times> int"
  | OtherExpression "int \<times> int"

fun expression_range :: "Expression \<Rightarrow> int \<times> int" where
  "expression_range (Identifier n r) = r"
| "expression_range (Literal r) = r"
| "expression_range (ConditionalExpression t c a r) = r"
| "expression_range (FunctionExpression r) = r"
| "expression_range (ArrowFunctionExpression r) = r"
| "expression_range (ClassExpression r) = r"
| "expression_range (CallExpression r) = r"
| "expression_range (OtherExpression r) = r"

text \<open>\<open>isPure\<close> (lines 18--30).\<close>

fun isPure :: "Expression \<Rightarrow> bool" where
  "isPure (Identifier n r) = True"
| "isPure (Literal r) = True"
| "isPure (ConditionalExpression test consequent alternate r) =
     (isPure test \<and> isPure consequent \<and> isPure alternate)"
| "isPure expr = False"

text \<open>
  The binding of a declarator (\<open>decl.id\<close>): an identifier with its name and range, or a
  destructuring pattern.
\<close>

datatype Pattern =
    BindingIdentifier string "int \<times> int"
  | ObjectPattern "int \<times> int"
  | ArrayPattern "int \<times> int"

text \<open>
  Declarators and statements are keys of a \<open>WeakMap\<close> or a \<open>WeakSet\<close>, which compare by
  identity: \<open>decl_node\<close> and the first argument of each statement constructor number
  the node objects.
\<close>

record VariableDeclarator =
  decl_node :: nat
  decl_id :: Pattern
  decl_init :: "Expression option"
  decl_loc :: nat

text \<open>
  The declaration of an \<open>export default\<close> statement is an expression or a function or
  class declaration; the plugin tests its type against four expression types only.
\<close>

datatype Declaration = ExpressionDeclaration Expression | OtherDeclaration

datatype Statement =
    FunctionDeclaration nat "string option"
  | ClassDeclaration nat "string option"
  | ExportDefaultDeclaration nat Declaration
  | OtherStatement nat

fun statement_node :: "Statement \<Rightarrow> nat" where
  "statement_node (FunctionDeclaration n i) = n"
| "statement_node (ClassDeclaration n i) = n"
| "statement_node (ExportDefaultDeclaration n d) = n"
| "statement_node (OtherStatement n) = n"

datatype CommentType = Block | Line

record Comment =
  comment_type :: CommentType
  comment_value :: string
  comment_range :: "int \<times> int"

text \<open>
  The test \<open>/^\s*(#|@)__PURE__\s*$/\<close> of line 223. A \<open>char\<close> is one of the code units 0
  to 255; of these \<open>\s\<close> matches tab, line feed, vertical tab, form feed, carriage
  return, space and the no-break space. Neither \<open>#\<close> nor \<open>@\<close> is white space, so the
  first \<open>\s*\<close> takes all leading white space.
\<close>

definition isWhitespace :: "char \<Rightarrow> bool" where
  "isWhitespace ch = (of_char ch \<in> {9, 10, 11, 12, 13, 32, 160 :: nat})"

fun allWhitespace :: "string \<Rightarrow> bool" where
  "allWhitespace [] = True"
| "allWhitespace (ch # rest) = (isWhitespace ch \<and> allWhitespace rest)"

definition purePragma :: "string \<Rightarrow> bool" where
  "purePragma v =
     (case dropWhile isWhitespace v of
        [] \<Rightarrow> False
      | ch # rest \<Rightarrow>
          (ch = CHR ''#'' \<or> ch = CHR ''@'') \<and> take 8 rest = ''__PURE__'' \<and>
          allWhitespace (drop 8 rest))"

subsection \<open>The parser and the state of the plugin\<close>

text \<open>\<open>dep.usedByExports\<close>: \<open>false\<close>, \<open>true\<close> or the set read from the map.\<close>

datatype UsedByExports = UsedFalse | UsedTrue | UsedSet "item list"

datatype error = TypeError

text \<open>
  One record holds what the handlers of one parser read and write:
  \<^item> of the parser: \<open>parser.scope.topLevelScope === true\<close>, the method \<open>getComments\<close>
    (its result for each range is an input), the tag data that \<open>tagVariable\<close> stores
    for \<open>topLevelSymbolTag\<close> and the names passed to \<open>defineVariable\<close>;
  \<^item> of \<open>parser.state\<close>: \<open>harmonyInnerGraph\<close> (\<open>None\<close> is \<open>undefined\<close>),
    \<open>harmonyAllExportDependentDependencies\<close>, \<open>currentTopLevelSymbol\<close> and the
    dependencies added to \<open>parser.state.module\<close>;
  \<^item> of the closure of \<open>handler\<close>: \<open>statementWithTopLevelSymbol\<close>,
    \<open>declWithTopLevelSymbol\<close> and \<open>pureDeclarators\<close>;
  \<^item> the field \<open>usedByExports\<close> of every dependency object, and the number of objects
    allocated so far.
\<close>

record JavascriptParser =
  topLevelScope :: bool
  getComments :: "int \<times> int \<Rightarrow> Comment list"
  tagData :: "string \<rightharpoonup> TopLevelSymbol"
  definitions :: "string list"
  harmonyInnerGraph :: "InnerGraph option"
  harmonyAllExportDependentDependencies :: "PureExpressionDependency list"
  currentTopLevelSymbol :: "TopLevelSymbol option"
  moduleDependencies :: "PureExpressionDependency list"
  statementWithTopLevelSymbol :: "nat \<rightharpoonup> TopLevelSymbol"
  declWithTopLevelSymbol :: "nat \<rightharpoonup> TopLevelSymbol"
  pureDeclarators :: "nat set"
  usedByExports :: "PureExpressionDependency \<rightharpoonup> UsedByExports"
  allocated :: nat

text \<open>
  Modelled from the spec: \<open>parser.defineVariable\<close>, \<open>parser.tagVariable\<close> and
  \<open>parser.getTagData\<close> are methods of the parser, which is not part of the sources at
  hand. Sections 4.1 and 9 of the specification describe them as a symbol table of
  the module, a mapping from a declared name to its \<open>TopLevelSymbol\<close> that is filled
  at registration and consulted when the name is looked up; defining a name leaves
  the table as it is.
\<close>

definition defineVariable :: "string \<Rightarrow> JavascriptParser \<Rightarrow> JavascriptParser" where
  "defineVariable name parser = parser\<lparr>definitions := set_add name (definitions parser)\<rparr>"

definition tagVariable ::
  "string \<Rightarrow> TopLevelSymbol \<Rightarrow> JavascriptParser \<Rightarrow> JavascriptParser" where
  "tagVariable name fn parser = parser\<lparr>tagData := (tagData parser)(name \<mapsto> fn)\<rparr>"

definition getTagData :: "string \<Rightarrow> JavascriptParser \<Rightarrow> TopLevelSymbol option" where
  "getTagData name parser = tagData parser name"

text \<open>\<open>new TopLevelSymbol(name, innerGraph)\<close>: a new object.\<close>

definition new_TopLevelSymbol ::
  "string \<Rightarrow> JavascriptParser \<Rightarrow> TopLevelSymbol \<times> JavascriptParser" where
  "new_TopLevelSymbol name parser =
     (TopLevelSymbol (allocated parser) name, parser\<lparr>allocated := Suc (allocated parser)\<rparr>)"

subsection \<open>The handlers (lines 77--275)\<close>

text \<open>The \<open>program\<close> hook (lines 77--80).\<close>

definition program :: "JavascriptParser \<Rightarrow> JavascriptParser" where
  "program parser =
     parser\<lparr>harmonyInnerGraph := Some [], harmonyAllExportDependentDependencies := []\<rparr>"

text \<open>
  Lines 145--148, which lines 159--162 and 176--179 repeat: define the name, create a
  symbol, tag the name with it, remember the symbol of the statement.
\<close>

definition tagStatement ::
  "string \<Rightarrow> nat \<Rightarrow> JavascriptParser \<Rightarrow> JavascriptParser" where
  "tagStatement name n parser =
     (let parser1 = defineVariable name parser;
          (fn, parser2) = new_TopLevelSymbol name parser1;
          parser3 = tagVariable name fn parser2
      in parser3\<lparr>statementWithTopLevelSymbol :=
           (statementWithTopLevelSymbol parser3)(n \<mapsto> fn)\<rparr>)"

text \<open>
  A handler returns \<open>true\<close> or nothing (\<open>undefined\<close>); the first component of a result
  is \<open>True\<close> for \<open>true\<close>.
\<close>

text \<open>The \<open>preStatement\<close> hook (lines 139--152).\<close>

definition preStatement :: "Statement \<Rightarrow> JavascriptParser \<Rightarrow> bool \<times> JavascriptParser" where
  "preStatement statement parser =
     (if topLevelScope parser then
        (case statement of
           FunctionDeclaration n i \<Rightarrow>
             (True, tagStatement (case i of Some name \<Rightarrow> name | None \<Rightarrow> ''*default*'') n parser)
         | _ \<Rightarrow> (False, parser))
      else (False, parser))"

text \<open>The \<open>blockPreStatement\<close> hook (lines 153--183).\<close>

fun defaultDeclarationTagged :: "Declaration \<Rightarrow> bool" where
  "defaultDeclarationTagged (ExpressionDeclaration (FunctionExpression r)) = True"
| "defaultDeclarationTagged (ExpressionDeclaration (ArrowFunctionExpression r)) = True"
| "defaultDeclarationTagged (ExpressionDeclaration (ClassExpression r)) = True"
| "defaultDeclarationTagged (ExpressionDeclaration (Identifier n r)) = True"
| "defaultDeclarationTagged decl = False"

definition blockPreStatement ::
  "Statement \<Rightarrow> JavascriptParser \<Rightarrow> bool \<times> JavascriptParser" where
  "blockPreStatement statement parser =
     (if topLevelScope parser then
        (case statement of
           ClassDeclaration n i \<Rightarrow>
             (True, tagStatement (case i of Some name \<Rightarrow> name | None \<Rightarrow> ''*default*'') n parser)
         | ExportDefaultDeclaration n decl \<Rightarrow>
             (if defaultDeclarationTagged decl then (False, tagStatement ''*default*'' n parser)
              else (False, parser))
         | _ \<Rightarrow> (False, parser))
      else (False, parser))"

text \<open>\<open>tagVar\<close> (lines 184--194).\<close>

definition tagVar :: "string \<Rightarrow> JavascriptParser \<Rightarrow> TopLevelSymbol \<times> JavascriptParser" where
  "tagVar name parser =
     (let parser1 = defineVariable name parser in
      case getTagData name parser1 of
        Some existingTag \<Rightarrow> (existingTag, parser1)
      | None \<Rightarrow>
          (let (fn, parser2) = new_TopLevelSymbol name parser1
           in (fn, tagVariable name fn parser2)))"

text \<open>The \<open>preDeclarator\<close> hook (lines 198--235).\<close>

fun functionOrClassExpression :: "Expression \<Rightarrow> bool" where
  "functionOrClassExpression (FunctionExpression r) = True"
| "functionOrClassExpression (ArrowFunctionExpression r) = True"
| "functionOrClassExpression (ClassExpression r) = True"
| "functionOrClassExpression expr = False"

definition pureComment :: "Comment \<Rightarrow> bool" where
  "pureComment comment \<longleftrightarrow> comment_type comment = Block \<and> purePragma (comment_value comment)"

definition preDeclarator ::
  "VariableDeclarator \<Rightarrow> JavascriptParser \<Rightarrow> bool \<times> JavascriptParser" where
  "preDeclarator decl parser =
     (case (topLevelScope parser, decl_init decl, decl_id decl) of
        (True, Some init, BindingIdentifier name idRange) \<Rightarrow>
          if functionOrClassExpression init then
            (let (fn, parser1) = tagVar name parser
             in (True, parser1\<lparr>declWithTopLevelSymbol :=
                         (declWithTopLevelSymbol parser1)(decl_node decl \<mapsto> fn)\<rparr>))
          else if (fst (expression_range init) - snd idRange > 9 \<and>
                   list_ex pureComment
                     (getComments parser (snd idRange, fst (expression_range init)))) \<or>
                  isPure init then
            (let (fn, parser1) = tagVar name parser
             in (True, parser1\<lparr>declWithTopLevelSymbol :=
                         (declWithTopLevelSymbol parser1)(decl_node decl \<mapsto> fn),
                       pureDeclarators := insert (decl_node decl) (pureDeclarators parser1)\<rparr>))
          else (False, parser)
      | _ \<Rightarrow> (False, parser))"

text \<open>The \<open>statement\<close> hook (lines 236--244); it returns nothing.\<close>

definition statement :: "Statement \<Rightarrow> JavascriptParser \<Rightarrow> JavascriptParser" where
  "statement stmt parser =
     (if topLevelScope parser then
        (case statementWithTopLevelSymbol parser (statement_node stmt) of
           Some fn \<Rightarrow> parser\<lparr>currentTopLevelSymbol := Some fn\<rparr>
         | None \<Rightarrow> parser\<lparr>currentTopLevelSymbol := None\<rparr>)
      else parser)"

text \<open>
  The \<open>declarator\<close> hook (lines 245--262). \<open>declaratorEnter\<close> is lines 248--257, the
  state in which \<open>parser.walkExpression(decl.init)\<close> is called. A property read or a
  method call on \<open>null\<close> or \<open>undefined\<close> throws a \<open>TypeError\<close>. The walk belongs to the
  parser and is a parameter; it runs the \<open>expression\<close> hook on the references inside
  the initializer.
\<close>

definition declaratorEnter ::
  "VariableDeclarator \<Rightarrow> TopLevelSymbol \<Rightarrow> JavascriptParser \<Rightarrow> error + JavascriptParser" where
  "declaratorEnter decl fn parser =
     (if decl_node decl \<in> pureDeclarators parser then
        (case decl_init decl of
           None \<Rightarrow> Inl TypeError
         | Some init \<Rightarrow>
             (case harmonyInnerGraph parser of
                None \<Rightarrow> Inl TypeError
              | Some innerGraph \<Rightarrow>
                  (let dep = PureExpressionDependency (allocated parser)
                               (expression_range init) (decl_loc decl)
                   in Inr (parser\<lparr>
                        allocated := Suc (allocated parser),
                        moduleDependencies := moduleDependencies parser @ [dep],
                        harmonyInnerGraph :=
                          Some (graph_set (DependencyKey dep) (Some (InfoSet [Sym fn])) innerGraph),
                        harmonyAllExportDependentDependencies :=
                          set_add dep (harmonyAllExportDependentDependencies parser),
                        currentTopLevelSymbol := Some fn\<rparr>))))
      else Inr (parser\<lparr>currentTopLevelSymbol := Some fn\<rparr>))"

definition declarator ::
  "(Expression option \<Rightarrow> JavascriptParser \<Rightarrow> error + JavascriptParser) \<Rightarrow>
   VariableDeclarator \<Rightarrow> JavascriptParser \<Rightarrow> error + bool \<times> JavascriptParser" where
  "declarator walkExpression decl parser =
     (case declWithTopLevelSymbol parser (decl_node decl) of
        None \<Rightarrow> Inr (False, parser)
      | Some fn \<Rightarrow>
          (case declaratorEnter decl fn parser of
             Inl e \<Rightarrow> Inl e
           | Inr parser1 \<Rightarrow>
               (case walkExpression (decl_init decl) parser1 of
                  Inl e \<Rightarrow> Inl e
                | Inr parser2 \<Rightarrow> Inr (True, parser2\<lparr>currentTopLevelSymbol := None\<rparr>))))"

text \<open>
  The \<open>expression\<close> hook for \<open>topLevelSymbolTag\<close> (lines 263--270); the argument is
  \<open>parser.currentTagData\<close>, the symbol the name is tagged with. The graph that the
  symbol refers to is the graph of the module.
\<close>

definition expression :: "TopLevelSymbol \<Rightarrow> JavascriptParser \<Rightarrow> error + JavascriptParser" where
  "expression topLevelSymbol parser =
     (case harmonyInnerGraph parser of
        None \<Rightarrow> Inl TypeError
      | Some innerGraph \<Rightarrow>
          Inr (parser\<lparr>harmonyInnerGraph :=
                 Some (addDependency topLevelSymbol
                         (case currentTopLevelSymbol parser of
                            Some current \<Rightarrow> DepItem (Sym current)
                          | None \<Rightarrow> DepTrue)
                         innerGraph)\<rparr>))"

text \<open>The \<open>assign\<close> hook for \<open>topLevelSymbolTag\<close> (lines 271--275).\<close>

definition assign :: "string \<Rightarrow> bool" where
  "assign operator = (operator = ''='')"

text \<open>
  The \<open>finish\<close> hook (lines 82--136): flattening, then the loop of lines 121--135 over
  the pending dependencies.
\<close>

definition usageOf :: "info option \<Rightarrow> UsedByExports" where
  "usageOf v = (case v of None \<Rightarrow> UsedFalse | Some InfoTrue \<Rightarrow> UsedTrue | Some (InfoSet s) \<Rightarrow> UsedSet s)"

fun publish ::
  "PureExpressionDependency list \<Rightarrow> InnerGraph \<Rightarrow>
   (PureExpressionDependency \<rightharpoonup> UsedByExports) \<Rightarrow> (PureExpressionDependency \<rightharpoonup> UsedByExports)" where
  "publish [] innerGraph used = used"
| "publish (d # deps) innerGraph used =
     publish deps innerGraph (used(d \<mapsto> usageOf (graph_get innerGraph (DependencyKey d))))"

definition finish :: "JavascriptParser \<Rightarrow> JavascriptParser" where
  "finish parser =
     (case harmonyInnerGraph parser of
        None \<Rightarrow> parser
      | Some innerGraph \<Rightarrow>
          (let innerGraph' = flatten innerGraph
           in parser\<lparr>
                harmonyInnerGraph := Some innerGraph',
                usedByExports :=
                  publish (harmonyAllExportDependentDependencies parser) innerGraph'
                    (usedByExports parser)\<rparr>))"

text \<open>A value without an edge to a symbol: unset, always-used, or a set of strings.\<close>

fun only_strings :: "item list \<Rightarrow> bool" where
  "only_strings [] = True"
| "only_strings (Str s # xs) = only_strings xs"
| "only_strings (Sym t # xs) = False"

fun flat_value :: "info option \<Rightarrow> bool" where
  "flat_value None = True"
| "flat_value (Some InfoTrue) = True"
| "flat_value (Some (InfoSet xs)) = only_strings xs"


text \<open>
  The invariant of flattening. \<open>S\<close> holds the keys whose expansion has begun and not
  ended: they have left the working set and their value may still hold symbols.
  Every other key outside the working set has a flat value.
\<close>

definition resolved :: "node set \<Rightarrow> InnerGraph \<times> node list \<Rightarrow> bool" where
  "resolved S st \<longleftrightarrow>
     S \<inter> set (snd st) = {} \<and>
     (\<forall>k. k \<notin> set (snd st) \<and> k \<notin> S \<longrightarrow> flat_value (graph_get (fst st) k))"

text \<open>
  What may happen to the graph of a module after some point: calls of
  \<open>addDependency\<close> on any symbol with any argument, and runs of flattening.
\<close>

datatype operation = AddDependency TopLevelSymbol dep | Flatten

fun run :: "operation list \<Rightarrow> InnerGraph \<Rightarrow> InnerGraph" where
  "run [] innerGraph = innerGraph"
| "run (AddDependency this d # ops) innerGraph = run ops (addDependency this d innerGraph)"
| "run (Flatten # ops) innerGraph = run ops (flatten innerGraph)"

fun isBindingIdentifier :: "Pattern \<Rightarrow> bool" where
  "isBindingIdentifier (BindingIdentifier n r) = True"
| "isBindingIdentifier p = False"

subsection \<open>Concrete inputs\<close>

text \<open>
  The parser when the walk of a module begins, at top level, right after the
  \<open>program\<close> hook; the argument is what \<open>getComments\<close> answers.
\<close>

definition module_start :: "(int \<times> int \<Rightarrow> Comment list) \<Rightarrow> JavascriptParser" where
  "module_start comments =
     program \<lparr>topLevelScope = True, getComments = comments, tagData = Map.empty,
       definitions = [], harmonyInnerGraph = None,
       harmonyAllExportDependentDependencies = [], currentTopLevelSymbol = None,
       moduleDependencies = [], statementWithTopLevelSymbol = Map.empty,
       declWithTopLevelSymbol = Map.empty, pureDeclarators = {},
       usedByExports = Map.empty, allocated = 0\<rparr>"

definition no_comments :: "int \<times> int \<Rightarrow> Comment list" where
  "no_comments r = []"

text \<open>
  A parser that answers \<open>getComments\<close> with those comments of the module that lie
  within the range asked for.
\<close>

definition comments_in :: "Comment list \<Rightarrow> int \<times> int \<Rightarrow> Comment list" where
  "comments_in cs r =
     filter (\<lambda>c. fst r \<le> fst (comment_range c) \<and> snd (comment_range c) \<le> snd r) cs"

text \<open>
  \<^verbatim>\<open>var a = /* @__PURE__ */ f()\<close> and \<^verbatim>\<open>var a = /* @__PURE__ */ function () {}\<close>: the
  binding ends at offset 5, the comment takes offsets 8 to 23, the initializer starts
  at offset 24.
\<close>

definition pragma_in_gap :: Comment where
  "pragma_in_gap =
     \<lparr>comment_type = Block, comment_value = '' @__PURE__ '', comment_range = (8, 23)\<rparr>"

definition call_far :: VariableDeclarator where
  "call_far = \<lparr>decl_node = 1, decl_id = BindingIdentifier ''a'' (4, 5),
     decl_init = Some (CallExpression (24, 27)), decl_loc = 1\<rparr>"

definition function_far :: VariableDeclarator where
  "function_far = \<lparr>decl_node = 1, decl_id = BindingIdentifier ''a'' (4, 5),
     decl_init = Some (FunctionExpression (24, 38)), decl_loc = 1\<rparr>"

text \<open>
  \<^verbatim>\<open>var /* @__PURE__ */ a = f()\<close>: the comment takes offsets 4 to 19 and precedes the
  binding, which ends at offset 21; the initializer starts at offset 24.
\<close>

definition pragma_before_binding :: Comment where
  "pragma_before_binding =
     \<lparr>comment_type = Block, comment_value = '' @__PURE__ '', comment_range = (4, 19)\<rparr>"

definition call_pragma_first :: VariableDeclarator where
  "call_pragma_first = \<lparr>decl_node = 1, decl_id = BindingIdentifier ''a'' (20, 21),
     decl_init = Some (CallExpression (24, 27)), decl_loc = 1\<rparr>"

text \<open>
  \<^verbatim>\<open>var /* @__PURE__ */ a = function () {}\<close>: the same comment and binding, and a function
  expression that starts at offset 24.
\<close>

definition function_pragma_first :: VariableDeclarator where
  "function_pragma_first = \<lparr>decl_node = 1, decl_id = BindingIdentifier ''a'' (20, 21),
     decl_init = Some (FunctionExpression (24, 38)), decl_loc = 1\<rparr>"

text \<open>A declarator with a destructuring pattern, and one without initializer.\<close>

definition destructuring :: VariableDeclarator where
  "destructuring = \<lparr>decl_node = 1, decl_id = ObjectPattern (4, 9),
     decl_init = Some (Identifier ''o'' (12, 13)), decl_loc = 1\<rparr>"

text \<open>The symbols of three top-level functions \<open>a\<close>, \<open>b\<close> and \<open>c\<close>.\<close>

definition sym_a :: TopLevelSymbol where "sym_a = TopLevelSymbol 1 ''a''"
definition sym_b :: TopLevelSymbol where "sym_b = TopLevelSymbol 0 ''b''"
definition sym_c :: TopLevelSymbol where "sym_c = TopLevelSymbol 2 ''c''"

text \<open>
  The graph with the entries \<open>a \<mapsto> {b, c}\<close>, \<open>b \<mapsto> {a}\<close> and \<open>c \<mapsto> true\<close>, when \<open>a\<close> is
  referenced first: the keys are inserted in the order \<open>a\<close>, \<open>b\<close>, \<open>c\<close>.
\<close>

definition graph_a_first :: InnerGraph where
  "graph_a_first =
     addDependency sym_c DepTrue
       (addDependency sym_a (DepItem (Sym sym_c))
         (addDependency sym_b (DepItem (Sym sym_a))
           (addDependency sym_a (DepItem (Sym sym_b)) [])))"

text \<open>The same entries when \<open>b\<close> is referenced first: the keys are in the order \<open>b\<close>, \<open>a\<close>, \<open>c\<close>.\<close>

definition graph_b_first :: InnerGraph where
  "graph_b_first =
     addDependency sym_c DepTrue
       (addDependency sym_a (DepItem (Sym sym_c))
         (addDependency sym_a (DepItem (Sym sym_b))
           (addDependency sym_b (DepItem (Sym sym_a)) [])))"

text \<open>The walk of an initializer that holds no reference to a tagged name.\<close>

definition skip_walk :: "Expression option \<Rightarrow> JavascriptParser \<Rightarrow> error + JavascriptParser" where
  "skip_walk e parser = Inr parser"

definition no_initializer :: VariableDeclarator where
  "no_initializer = \<lparr>decl_node = 2, decl_id = BindingIdentifier ''u'' (4, 5),
     decl_init = None, decl_loc = 2\<rparr>"

text \<open>
  The state at the end of the module
  \<^verbatim>\<open>const a = /* @__PURE__ */ compute(); export function bar() { return a; }\<close>
  once the export name \<open>bar\<close> has been recorded for the function: the dependency of the
  initializer points at the symbol of \<open>a\<close>, which is used by the symbol of \<open>bar\<close>.
\<close>

definition dep_a :: PureExpressionDependency where
  "dep_a = PureExpressionDependency 1 (24, 33) 1"

definition sym_bar :: TopLevelSymbol where "sym_bar = TopLevelSymbol 2 ''bar''"

definition module_end :: JavascriptParser where
  "module_end =
     (module_start no_comments)\<lparr>
        harmonyInnerGraph :=
          Some [(DependencyKey dep_a, Some (InfoSet [Sym sym_a])),
                (SymbolKey sym_a, Some (InfoSet [Sym sym_bar])),
                (SymbolKey sym_bar, Some (InfoSet [Str ''bar'']))],
        harmonyAllExportDependentDependencies := [dep_a]\<rparr>"

text \<open>The parser inside the body of the tracked function \<open>b\<close>.\<close>

definition inside_b :: JavascriptParser where
  "inside_b = (module_start no_comments)\<lparr>topLevelScope := False,
     currentTopLevelSymbol := Some sym_b\<rparr>"

text \<open>
  The walk of a module, as far as the plugin sees it. A reference to a name that
  carries a tag runs the \<open>expression\<close> hook with the tag data. The body of a top-level
  function declaration is walked after the \<open>statement\<close> hook, in a scope that is not
  the top-level scope; any other top-level statement is walked at top level.
\<close>

definition reference :: "string \<Rightarrow> error + JavascriptParser \<Rightarrow> error + JavascriptParser" where
  "reference name r =
     (case r of
        Inl e \<Rightarrow> Inl e
      | Inr parser \<Rightarrow>
          (case getTagData name parser of
             None \<Rightarrow> Inr parser
           | Some topLevelSymbol \<Rightarrow> expression topLevelSymbol parser))"

fun references :: "string list \<Rightarrow> error + JavascriptParser \<Rightarrow> error + JavascriptParser" where
  "references [] r = r"
| "references (name # names) r = references names (reference name r)"

definition walk_function ::
  "Statement \<Rightarrow> string list \<Rightarrow> error + JavascriptParser \<Rightarrow> error + JavascriptParser" where
  "walk_function stmt names r =
     (case r of
        Inl e \<Rightarrow> Inl e
      | Inr parser \<Rightarrow>
          (case references names (Inr ((statement stmt parser)\<lparr>topLevelScope := False\<rparr>)) of
             Inl e \<Rightarrow> Inl e
           | Inr parser' \<Rightarrow> Inr (parser'\<lparr>topLevelScope := True\<rparr>)))"

definition walk_top_level ::
  "Statement \<Rightarrow> string list \<Rightarrow> error + JavascriptParser \<Rightarrow> error + JavascriptParser" where
  "walk_top_level stmt names r =
     (case r of
        Inl e \<Rightarrow> Inl e
      | Inr parser \<Rightarrow> references names (Inr (statement stmt parser)))"

text \<open>
  The module
  \<^verbatim>\<open>function b() { a(); }  function a() { b(); }  function c() { a(); }  c();\<close>
  The three declarations are registered first (they are hoisted), then the
  statements are walked in source order. The first reference is to \<open>a\<close>, in the body
  of \<open>b\<close>.
\<close>

definition module_b_a_c :: "error + JavascriptParser" where
  "module_b_a_c =
     walk_top_level (OtherStatement 4) [''c'']
       (walk_function (FunctionDeclaration 3 (Some ''c'')) [''a'']
         (walk_function (FunctionDeclaration 2 (Some ''a'')) [''b'']
           (walk_function (FunctionDeclaration 1 (Some ''b'')) [''a'']
             (Inr (snd (preStatement (FunctionDeclaration 3 (Some ''c''))
                (snd (preStatement (FunctionDeclaration 2 (Some ''a''))
                  (snd (preStatement (FunctionDeclaration 1 (Some ''b''))
                    (module_start no_comments)))))))))))"

text \<open>
  A top-level variable declaration with one declarator whose initializer holds no
  reference to a tagged name.
\<close>

definition walk_declaration ::
  "Statement \<Rightarrow> VariableDeclarator \<Rightarrow> error + JavascriptParser \<Rightarrow> error + JavascriptParser" where
  "walk_declaration stmt decl r =
     (case r of
        Inl e \<Rightarrow> Inl e
      | Inr parser \<Rightarrow> map_sum id snd (declarator skip_walk decl (statement stmt parser)))"

text \<open>The decisions that the pending dependencies carry, in the order of the pending set.\<close>

definition published :: "JavascriptParser \<Rightarrow> UsedByExports option list" where
  "published parser = map (usedByExports parser) (harmonyAllExportDependentDependencies parser)"

text \<open>
  The module
  \<^verbatim>\<open>function b() { a(); x; }  function a() { b(); }  function c() { a(); }  const x = /* @__PURE__ */ mk();  c();\<close>
  The functions and the declarator of \<open>x\<close> are registered before the statements
  are walked.
\<close>

definition x_declarator :: VariableDeclarator where
  "x_declarator = \<lparr>decl_node = 4, decl_id = BindingIdentifier ''x'' (78, 79),
     decl_init = Some (CallExpression (98, 102)), decl_loc = 4\<rparr>"

definition x_pragma :: Comment where
  "x_pragma =
     \<lparr>comment_type = Block, comment_value = '' @__PURE__ '', comment_range = (82, 97)\<rparr>"

definition module_pure_x :: "error + JavascriptParser" where
  "module_pure_x =
     walk_top_level (OtherStatement 6) [''c'']
       (walk_declaration (OtherStatement 5) x_declarator
         (walk_function (FunctionDeclaration 3 (Some ''c'')) [''a'']
           (walk_function (FunctionDeclaration 2 (Some ''a'')) [''b'']
             (walk_function (FunctionDeclaration 1 (Some ''b'')) [''a'', ''x'']
               (Inr (snd (preDeclarator x_declarator
                  (snd (preStatement (FunctionDeclaration 3 (Some ''c''))
                    (snd (preStatement (FunctionDeclaration 2 (Some ''a''))
                      (snd (preStatement (FunctionDeclaration 1 (Some ''b''))
                        (module_start (comments_in [x_pragma])))))))))))))))"

section \<open>Properties\<close>

subsection \<open>The map and the sets\<close>

lemma graph_get_graph_set:
  "graph_get (graph_set k v g) k' = (if k' = k then v else graph_get g k')"
  by (induction g) auto

lemma graph_set_same: "graph_get g k = Some i \<Longrightarrow> graph_set k (Some i) g = g"
  by (induction g) (auto split: if_splits)

lemma graph_get_not_key: "k \<notin> set (graph_keys g) \<Longrightarrow> graph_get g k = None"
  by (induction g) (auto simp: graph_keys_def)

lemma set_set_delete: "set (set_delete x xs) = set xs - {x}"
  by (simp add: set_delete_def)

lemma only_strings_append:
  "only_strings (xs @ ys) \<longleftrightarrow> only_strings xs \<and> only_strings ys"
  by (induction xs rule: only_strings.induct) auto

lemma only_strings_set_add: "only_strings ns \<Longrightarrow> only_strings (set_add (Str s) ns)"
  by (simp add: set_add_def only_strings_append)

lemma only_strings_add_strings: "only_strings ns \<Longrightarrow> only_strings (add_strings iv ns)"
  by (induction iv ns rule: add_strings.induct) (auto simp: only_strings_set_add)

lemma purePragma_example: "purePragma '' @__PURE__ ''"
  by (simp add: purePragma_def isWhitespace_def)

subsection \<open>\<open>addDependency\<close>\<close>

text \<open>
  C4. \<open>addDependency\<close> does what the specification says: no change on an always-used
  value; otherwise the sentinel makes the value always-used, replacing a set; otherwise
  the target is added to the set of the symbol, which is created when the value is
  unset.
\<close>

theorem addDependency_as_specified:
  "addDependency this d innerGraph = addDependency_spec this d innerGraph"
  by (auto simp: addDependency_def addDependency_spec_def Let_def graph_set_same
      split: dep.splits option.splits info.splits)

lemma addDependency_keeps_true:
  "graph_get g k = Some InfoTrue \<Longrightarrow> graph_get (addDependency s d g) k = Some InfoTrue"
  by (auto simp: addDependency_def Let_def graph_get_graph_set
      split: dep.splits option.splits info.splits)


subsection \<open>Flattening: the working set\<close>

lemma expand_unexpanded:
  "set (snd (expand key st)) \<subseteq> set (snd st) - {key}"
  "set (snd (expand_items key xs ns st)) \<subseteq> set (snd st)"
proof (induction key st and key xs ns st rule: expand_expand_items.induct)
  case (1 key innerGraph unexpanded)
  then show ?case
    by (auto simp: expand.simps set_set_delete split: option.splits info.splits)
next
  case (2 key newSet innerGraph unexpanded)
  then show ?case by simp
next
  case (3 key s rest newSet innerGraph unexpanded)
  then show ?case by simp
next
  case (4 key t rest newSet innerGraph unexpanded)
  obtain g' u' where e: "expand (SymbolKey t) (innerGraph, unexpanded) = (g', u')"
    by (cases "expand (SymbolKey t) (innerGraph, unexpanded)")
  have sub: "set u' \<subseteq> set unexpanded" using 4(1) e by auto
  show ?case
  proof (cases "graph_get g' (SymbolKey t)")
    case None
    then show ?thesis using 4(2)[of g' u'] e sub by auto
  next
    case (Some v)
    show ?thesis
    proof (cases v)
      case InfoTrue
      then show ?thesis using Some e sub by simp
    next
      case (InfoSet itemValue)
      then show ?thesis using 4(3)[of g' u' v itemValue] Some e sub by auto
    qed
  qed
qed

lemma expand_length:
  "length (snd (expand key (innerGraph, unexpanded))) \<le> length unexpanded"
  using expand_shrinks_dom(1)[of key "(innerGraph, unexpanded)"] expand_expand_items_total
  by simp

lemma expand_all_unexpanded: "set (snd (expand_all ks st)) \<subseteq> set (snd st) - set ks"
proof (induction ks st rule: expand_all.induct)
  case (1 st)
  then show ?case by simp
next
  case (2 item rest innerGraph unexpanded)
  then show ?case using expand_unexpanded(1)[of item "(innerGraph, unexpanded)"] by auto
qed

lemma flatten_state_empty: "snd (flatten_state g) = []"
  using expand_all_unexpanded[of "graph_keys g" "(g, graph_keys g)"]
  by (simp add: flatten_state_def)

text \<open>
  C3. Flattening terminates on every graph, cyclic or not. Every call of \<open>expand\<close> and
  every run of its loop, on any key, any graph and any working set, lies in the
  domain on which the recursion is well-founded. The reason is the one the specification
  gives: the key of a call has left the working set when the call returns (it is
  deleted at line 90, before the loop over its members), and no call makes the working
  set longer. Flattening as a whole ends with an empty working set.
\<close>

theorem flatten_terminates:
  "expand_expand_items_dom (Inl (key, innerGraph, unexpanded)) \<and>
   expand_expand_items_dom (Inr (key, members, newSet, innerGraph, unexpanded)) \<and>
   key \<notin> set (snd (expand key (innerGraph, unexpanded))) \<and>
   length (snd (expand key (innerGraph, unexpanded))) \<le> length unexpanded \<and>
   snd (flatten_state innerGraph) = []"
proof -
  have "key \<notin> set (snd (expand key (innerGraph, unexpanded)))"
    using expand_unexpanded(1)[of key "(innerGraph, unexpanded)"] by auto
  then show ?thesis
    using expand_expand_items_total expand_length flatten_state_empty by simp
qed

subsection \<open>Flattening: always-used values stay\<close>

lemma expand_keeps_true:
  "graph_get (fst st) k = Some InfoTrue \<Longrightarrow>
     graph_get (fst (expand key st)) k = Some InfoTrue"
  "graph_get (fst st) k = Some InfoTrue \<Longrightarrow> k \<noteq> key \<Longrightarrow>
     graph_get (fst (expand_items key xs ns st)) k = Some InfoTrue"
proof (induction key st and key xs ns st rule: expand_expand_items.induct)
  case (1 key innerGraph unexpanded)
  then show ?case
    by (cases "k = key") (auto simp: expand.simps split: option.splits info.splits)
next
  case (2 key newSet innerGraph unexpanded)
  then show ?case by (simp add: graph_get_graph_set)
next
  case (3 key s rest newSet innerGraph unexpanded)
  then show ?case by simp
next
  case (4 key t rest newSet innerGraph unexpanded)
  obtain g' u' where e: "expand (SymbolKey t) (innerGraph, unexpanded) = (g', u')"
    by (cases "expand (SymbolKey t) (innerGraph, unexpanded)")
  have t: "graph_get g' k = Some InfoTrue" using 4(1) 4(4) e by simp
  show ?case
    using 4(2)[of g' u'] 4(3)[of g' u'] e t 4(5)
    by (auto simp: graph_get_graph_set split: option.splits info.splits)
qed

lemma expand_all_keeps_true:
  "graph_get (fst st) k = Some InfoTrue \<Longrightarrow>
     graph_get (fst (expand_all ks st)) k = Some InfoTrue"
proof (induction ks st rule: expand_all.induct)
  case (1 st)
  then show ?case by simp
next
  case (2 item rest innerGraph unexpanded)
  then show ?case
    using expand_keeps_true(1)[of "(innerGraph, unexpanded)" k item] by auto
qed

lemma flatten_keeps_true:
  "graph_get g k = Some InfoTrue \<Longrightarrow> graph_get (flatten g) k = Some InfoTrue"
  unfolding flatten_def flatten_state_def by (rule expand_all_keeps_true) simp

text \<open>
  C5. The always-used value is absorbing: when the value of a node is \<open>true\<close>, it is
  still \<open>true\<close> after any sequence of calls of \<open>addDependency\<close> (on this node or on any
  other, with any argument) and of runs of flattening.
\<close>

theorem always_used_absorbing:
  "graph_get innerGraph k = Some InfoTrue \<Longrightarrow>
     graph_get (run ops innerGraph) k = Some InfoTrue"
proof (induction ops innerGraph rule: run.induct)
  case (1 innerGraph)
  then show ?case by simp
next
  case (2 this d ops innerGraph)
  then show ?case by (simp add: addDependency_keeps_true)
next
  case (3 ops innerGraph)
  then show ?case by (simp add: flatten_keeps_true)
qed

theorem always_used_absorbing_witness:
  "graph_get [(SymbolKey sym_a, Some InfoTrue), (SymbolKey sym_b, Some (InfoSet [Sym sym_a]))]
     (SymbolKey sym_a) = Some InfoTrue \<and>
   graph_get
     (run [AddDependency sym_a (DepItem (Str ''x'')), Flatten, AddDependency sym_a (DepItem (Sym sym_b)),
           Flatten]
        [(SymbolKey sym_a, Some InfoTrue), (SymbolKey sym_b, Some (InfoSet [Sym sym_a]))])
     (SymbolKey sym_a) = Some InfoTrue"
  using always_used_absorbing[of
      "[(SymbolKey sym_a, Some InfoTrue), (SymbolKey sym_b, Some (InfoSet [Sym sym_a]))]"
      "SymbolKey sym_a"
      "[AddDependency sym_a (DepItem (Str ''x'')), Flatten,
        AddDependency sym_a (DepItem (Sym sym_b)), Flatten]"]
  by simp

subsection \<open>Flattening: no edge is left\<close>

lemma resolved_write:
  assumes "resolved (insert key S) (g, u)" and "flat_value v"
  shows "resolved S (graph_set key v g, u)"
  using assms by (auto simp: resolved_def graph_get_graph_set)

lemma resolved_delete:
  assumes "resolved S (g, u)"
  shows "resolved (insert key S) (g, set_delete key u)"
  using assms by (auto simp: resolved_def set_set_delete)

lemma resolved_delete_flat:
  assumes "resolved S (g, u)" and "flat_value (graph_get g key)"
  shows "resolved S (g, set_delete key u)"
  using assms by (auto simp: resolved_def set_set_delete)

lemma expand_resolved:
  "resolved S st \<Longrightarrow> resolved S (expand key st)"
  "resolved (insert key S) st \<Longrightarrow> only_strings ns \<Longrightarrow>
     resolved S (expand_items key xs ns st)"
proof (induction key st and key xs ns st arbitrary: S and S
    rule: expand_expand_items.induct)
  case (1 key innerGraph unexpanded)
  show ?case
  proof (cases "key \<in> set unexpanded")
    case False
    then show ?thesis using 1(2) by (simp add: expand.simps)
  next
    case True
    show ?thesis
    proof (cases "graph_get innerGraph key")
      case None
      then show ?thesis
        using True resolved_delete_flat[OF 1(2), of key] by (simp add: expand.simps)
    next
      case (Some v)
      show ?thesis
      proof (cases v)
        case InfoTrue
        then show ?thesis
          using True Some resolved_delete_flat[OF 1(2), of key] by (simp add: expand.simps)
      next
        case (InfoSet val)
        have "resolved S (expand_items key val [] (innerGraph, set_delete key unexpanded))"
          using 1(1)[of v val S] True Some InfoSet resolved_delete[OF 1(2), of key] by simp
        then show ?thesis using True Some InfoSet by (simp add: expand.simps)
      qed
    qed
  qed
next
  case (2 key newSet innerGraph unexpanded)
  show ?case
  proof (cases "newSet = []")
    case True
    then show ?thesis using resolved_write[OF 2(1), of None] by simp
  next
    case False
    then show ?thesis
      using resolved_write[OF 2(1), of "Some (InfoSet newSet)"] 2(2) by simp
  qed
next
  case (3 key s rest newSet innerGraph unexpanded)
  then show ?case by (simp add: only_strings_set_add)
next
  case (4 key t rest newSet innerGraph unexpanded)
  obtain g' u' where e: "expand (SymbolKey t) (innerGraph, unexpanded) = (g', u')"
    by (cases "expand (SymbolKey t) (innerGraph, unexpanded)")
  have r: "resolved (insert key S) (g', u')" using 4(1)[OF 4(4)] e by simp
  show ?case
  proof (cases "graph_get g' (SymbolKey t)")
    case None
    then show ?thesis using 4(2)[of g' u' S] e r 4(5) by simp
  next
    case (Some v)
    show ?thesis
    proof (cases v)
      case InfoTrue
      then show ?thesis using Some e resolved_write[OF r, of "Some InfoTrue"] by simp
    next
      case (InfoSet itemValue)
      then show ?thesis
        using 4(3)[of g' u' v itemValue S] Some e r 4(5)
        by (simp add: only_strings_add_strings)
    qed
  qed
qed

lemma expand_all_resolved: "resolved S st \<Longrightarrow> resolved S (expand_all ks st)"
proof (induction ks st rule: expand_all.induct)
  case (1 st)
  then show ?case by simp
next
  case (2 item rest innerGraph unexpanded)
  then show ?case using expand_resolved(1)[of S "(innerGraph, unexpanded)" item] by auto
qed

lemma flatten_flat: "flat_value (graph_get (flatten g) k)"
proof -
  have "resolved {} (g, graph_keys g)"
    by (auto simp: resolved_def graph_get_not_key)
  then have "resolved {} (flatten_state g)"
    unfolding flatten_state_def by (rule expand_all_resolved)
  then show ?thesis
    using flatten_state_empty[of g] by (simp add: resolved_def flatten_def)
qed

text \<open>
  C6. After flattening, the value of every node is unset, \<open>true\<close>, or a set whose
  members are all strings: no value holds a \<open>TopLevelSymbol\<close>. The \<open>finish\<close> hook leaves
  this flattened graph in the state of the parser.
\<close>

theorem flatten_leaves_only:
  "flat_value (graph_get (flatten innerGraph) k) \<and>
   harmonyInnerGraph
     (finish (parser\<lparr>harmonyInnerGraph := Some innerGraph\<rparr>)) = Some (flatten innerGraph)"
proof
  have "resolved {} (innerGraph, graph_keys innerGraph)"
    by (auto simp: resolved_def graph_get_not_key)
  then have "resolved {} (expand_all (graph_keys innerGraph) (innerGraph, graph_keys innerGraph))"
    by (rule expand_all_resolved)
  moreover have "snd (expand_all (graph_keys innerGraph) (innerGraph, graph_keys innerGraph)) = []"
    using flatten_state_empty[of innerGraph] by (simp add: flatten_state_def)
  ultimately show "flat_value (graph_get (flatten innerGraph) k)"
    by (simp add: resolved_def flatten_def flatten_state_def)
next
  show "harmonyInnerGraph
     (finish (parser\<lparr>harmonyInnerGraph := Some innerGraph\<rparr>)) = Some (flatten innerGraph)"
    by (simp add: finish_def Let_def)
qed

subsection \<open>Flattening: the order of the keys\<close>

text \<open>
  C1. The result of flattening depends on the order of the keys. The graphs
  \<open>graph_a_first\<close> and \<open>graph_b_first\<close> have the same entries, \<open>a \<mapsto> {b, c}\<close>, \<open>b \<mapsto> {a}\<close>
  and \<open>c \<mapsto> true\<close>, and differ in the order of the keys only. When \<open>a\<close> is expanded
  first, the inner call for \<open>b\<close> meets \<open>a\<close> half-expanded, reads the unflattened set
  of \<open>a\<close>, finds no string in it and stores \<open>undefined\<close> for \<open>b\<close>; when \<open>b\<close> is
  expanded first, \<open>b\<close> becomes \<open>true\<close>. The same holds for one graph and two orders
  in which the loop of lines 118--120 visits its keys. The handlers build
  \<open>graph_a_first\<close> for the module \<open>module_b_a_c\<close>, in which \<open>b\<close> is used: \<open>c\<close> is called
  at top level, \<open>c\<close> calls \<open>a\<close>, and \<open>a\<close> calls \<open>b\<close>. In the module \<open>module_pure_x\<close> the
  function \<open>b\<close> also reads the constant \<open>x\<close>, and the one pending dependency, the
  initializer of \<open>x\<close>, is published as not used.
\<close>

theorem flatten_depends_on_order:
  "set graph_a_first = set graph_b_first \<and>
   graph_keys graph_a_first = [SymbolKey sym_a, SymbolKey sym_b, SymbolKey sym_c] \<and>
   graph_keys graph_b_first = [SymbolKey sym_b, SymbolKey sym_a, SymbolKey sym_c] \<and>
   graph_get (flatten graph_a_first) (SymbolKey sym_b) = None \<and>
   graph_get (flatten graph_b_first) (SymbolKey sym_b) = Some InfoTrue \<and>
   graph_get
     (fst (expand_all [SymbolKey sym_a, SymbolKey sym_b, SymbolKey sym_c]
             (graph_a_first, graph_keys graph_a_first))) (SymbolKey sym_b) = None \<and>
   graph_get
     (fst (expand_all [SymbolKey sym_b, SymbolKey sym_a, SymbolKey sym_c]
             (graph_a_first, graph_keys graph_a_first))) (SymbolKey sym_b) = Some InfoTrue \<and>
   map_sum id harmonyInnerGraph module_b_a_c = Inr (Some graph_a_first) \<and>
   map_sum id (published \<circ> finish) module_pure_x = Inr [Some UsedFalse]"
proof -
  have graphs:
    "graph_a_first =
       [(SymbolKey sym_a, Some (InfoSet [Sym sym_b, Sym sym_c])),
        (SymbolKey sym_b, Some (InfoSet [Sym sym_a])), (SymbolKey sym_c, Some InfoTrue)]"
    "graph_b_first =
       [(SymbolKey sym_b, Some (InfoSet [Sym sym_a])),
        (SymbolKey sym_a, Some (InfoSet [Sym sym_b, Sym sym_c])), (SymbolKey sym_c, Some InfoTrue)]"
    by (simp_all add: graph_a_first_def graph_b_first_def sym_a_def sym_b_def sym_c_def
        addDependency_def set_add_def)
  have same: "set graph_a_first = set graph_b_first"
    and keys: "graph_keys graph_a_first = [SymbolKey sym_a, SymbolKey sym_b, SymbolKey sym_c]"
      "graph_keys graph_b_first = [SymbolKey sym_b, SymbolKey sym_a, SymbolKey sym_c]"
    by (auto simp: graphs graph_keys_def)
  have a_first:
    "fst (expand_all [SymbolKey sym_a, SymbolKey sym_b, SymbolKey sym_c]
            (graph_a_first, graph_keys graph_a_first)) =
       [(SymbolKey sym_a, Some InfoTrue), (SymbolKey sym_b, None), (SymbolKey sym_c, Some InfoTrue)]"
    by (simp add: graphs graph_keys_def sym_a_def sym_b_def sym_c_def expand.simps
        set_add_def set_delete_def)
  have b_first:
    "fst (expand_all [SymbolKey sym_b, SymbolKey sym_a, SymbolKey sym_c]
            (graph_a_first, graph_keys graph_a_first)) =
       [(SymbolKey sym_a, Some InfoTrue), (SymbolKey sym_b, Some InfoTrue),
        (SymbolKey sym_c, Some InfoTrue)]"
    by (simp add: graphs graph_keys_def sym_a_def sym_b_def sym_c_def expand.simps
        set_add_def set_delete_def)
  have fl_a: "graph_get (flatten graph_a_first) (SymbolKey sym_b) = None"
    using a_first by (simp add: flatten_def flatten_state_def keys sym_a_def sym_b_def)
  have fl_b: "graph_get (flatten graph_b_first) (SymbolKey sym_b) = Some InfoTrue"
    by (simp add: flatten_def flatten_state_def graphs graph_keys_def sym_a_def sym_b_def
        sym_c_def expand.simps set_add_def set_delete_def)
  have built: "map_sum id harmonyInnerGraph module_b_a_c = Inr (Some graph_a_first)"
    by (simp add: graphs sym_a_def sym_b_def sym_c_def
        module_b_a_c_def walk_top_level_def walk_function_def reference_def
        preStatement_def statement_def expression_def module_start_def program_def
        tagStatement_def defineVariable_def new_TopLevelSymbol_def tagVariable_def
        getTagData_def addDependency_def set_add_def Let_def)
  have unused: "map_sum id (published \<circ> finish) module_pure_x = Inr [Some UsedFalse]"
    by (simp add: module_pure_x_def walk_top_level_def walk_function_def walk_declaration_def
        reference_def x_declarator_def skip_walk_def comments_in_def x_pragma_def pureComment_def
        purePragma_example preStatement_def preDeclarator_def declarator_def
        declaratorEnter_def tagVar_def statement_def expression_def finish_def published_def
        module_start_def program_def tagStatement_def defineVariable_def
        new_TopLevelSymbol_def tagVariable_def getTagData_def addDependency_def flatten_def
        flatten_state_def graph_keys_def expand.simps usageOf_def set_add_def set_delete_def
        Let_def)
  show ?thesis
    using same keys fl_a fl_b a_first b_first built unused
    by (simp add: sym_a_def sym_b_def)
qed

subsection \<open>Registration of symbols\<close>

lemma tagVar_idempotent:
  "fst (tagVar name (snd (tagVar name parser))) = fst (tagVar name parser) \<and>
   tagData (snd (tagVar name (snd (tagVar name parser)))) = tagData (snd (tagVar name parser)) \<and>
   allocated (snd (tagVar name (snd (tagVar name parser)))) =
     allocated (snd (tagVar name parser))"
  by (auto simp: tagVar_def defineVariable_def new_TopLevelSymbol_def tagVariable_def
      getTagData_def Let_def split: option.splits)

text \<open>
  C7. Registration through \<open>tagVar\<close> returns the symbol that the name is already tagged
  with (\<open>tagVar_idempotent\<close>), but the \<open>preStatement\<close> handler does not look for an
  existing tag: for the script \<^verbatim>\<open>function f() {}  function f() {}\<close> the second
  declaration creates a second symbol and tags \<open>f\<close> with it. The same lines are in the
  \<open>blockPreStatement\<close> handler.
\<close>

theorem function_declared_twice:
  "fst (preStatement (FunctionDeclaration 1 (Some ''f'')) (module_start no_comments)) \<and>
   getTagData ''f''
     (snd (preStatement (FunctionDeclaration 1 (Some ''f'')) (module_start no_comments))) =
     Some (TopLevelSymbol 0 ''f'') \<and>
   getTagData ''f''
     (snd (preStatement (FunctionDeclaration 2 (Some ''f''))
        (snd (preStatement (FunctionDeclaration 1 (Some ''f'')) (module_start no_comments))))) =
     Some (TopLevelSymbol 1 ''f'') \<and>
   fst (tagVar ''f'' (snd (tagVar ''f'' (module_start no_comments)))) =
     fst (tagVar ''f'' (module_start no_comments))"
  by (simp add: preStatement_def module_start_def program_def tagStatement_def
      defineVariable_def new_TopLevelSymbol_def tagVariable_def getTagData_def tagVar_def
      Let_def set_add_def)

subsection \<open>Declarators\<close>

text \<open>
  C10. A declarator without initializer, or whose binding is not an identifier, is
  not tracked: the \<open>preDeclarator\<close> handler returns nothing and leaves the whole state
  as it is (no symbol, no tag), and the \<open>declarator\<close> handler, which finds no symbol
  for the declarator, does the same (no dependency, nothing pending); the initializer
  is not walked by the plugin.
\<close>

theorem untracked_declarator:
  assumes "decl_init decl = None \<or> \<not> isBindingIdentifier (decl_id decl)"
    and "declWithTopLevelSymbol parser (decl_node decl) = None"
  shows "preDeclarator decl parser = (False, parser) \<and>
         declarator walkExpression decl parser = Inr (False, parser)"
  using assms
  by (auto simp: preDeclarator_def declarator_def
      split: option.splits Pattern.splits bool.splits)

theorem untracked_declarator_witness:
  "\<not> isBindingIdentifier (decl_id destructuring) \<and>
   decl_init no_initializer = None \<and>
   declWithTopLevelSymbol (module_start no_comments) (decl_node destructuring) = None \<and>
   declWithTopLevelSymbol (module_start no_comments) (decl_node no_initializer) = None \<and>
   preDeclarator destructuring (module_start no_comments) = (False, module_start no_comments) \<and>
   declarator skip_walk destructuring (module_start no_comments) =
     Inr (False, module_start no_comments) \<and>
   preDeclarator no_initializer (module_start no_comments) = (False, module_start no_comments) \<and>
   declarator skip_walk no_initializer (module_start no_comments) =
     Inr (False, module_start no_comments)"
proof -
  have a: "\<not> isBindingIdentifier (decl_id destructuring)"
    by (simp add: destructuring_def)
  have b: "decl_init no_initializer = None"
    by (simp add: no_initializer_def)
  have c: "declWithTopLevelSymbol (module_start no_comments) n = None" for n
    by (simp add: module_start_def program_def)
  show ?thesis
    using a b c
      untracked_declarator[of destructuring "module_start no_comments" skip_walk]
      untracked_declarator[of no_initializer "module_start no_comments" skip_walk]
    by simp
qed


lemma tagVar_keeps:
  "topLevelScope (snd (tagVar name parser)) = topLevelScope parser \<and>
   harmonyInnerGraph (snd (tagVar name parser)) = harmonyInnerGraph parser \<and>
   harmonyAllExportDependentDependencies (snd (tagVar name parser)) =
     harmonyAllExportDependentDependencies parser \<and>
   moduleDependencies (snd (tagVar name parser)) = moduleDependencies parser \<and>
   pureDeclarators (snd (tagVar name parser)) = pureDeclarators parser \<and>
   declWithTopLevelSymbol (snd (tagVar name parser)) = declWithTopLevelSymbol parser"
  by (auto simp: tagVar_def defineVariable_def new_TopLevelSymbol_def tagVariable_def
      getTagData_def Let_def split: option.splits)

text \<open>The pragma, found in a gap of more than 9 characters, makes the declarator pure.\<close>

lemma pragma_accepted:
  assumes "topLevelScope parser"
    and "decl_id decl = BindingIdentifier name idRange"
    and "decl_init decl = Some init"
    and "\<not> functionOrClassExpression init"
    and "fst (expression_range init) - snd idRange > 9"
    and "comment \<in> set (getComments parser (snd idRange, fst (expression_range init)))"
    and "pureComment comment"
    and "harmonyInnerGraph parser = Some innerGraph"
  shows "\<exists>fn parser1 parser2 dep innerGraph2.
           preDeclarator decl parser = (True, parser1) \<and>
           declWithTopLevelSymbol parser1 (decl_node decl) = Some fn \<and>
           decl_node decl \<in> pureDeclarators parser1 \<and>
           declaratorEnter decl fn parser1 = Inr parser2 \<and>
           dep_range dep = expression_range init \<and>
           dep \<in> set (moduleDependencies parser2) \<and>
           dep \<in> set (harmonyAllExportDependentDependencies parser2) \<and>
           harmonyInnerGraph parser2 = Some innerGraph2 \<and>
           graph_get innerGraph2 (DependencyKey dep) = Some (InfoSet [Sym fn])"
proof -
  obtain fn p1 where tv: "tagVar name parser = (fn, p1)"
    by (cases "tagVar name parser")
  define parser1 where
    "parser1 = p1\<lparr>declWithTopLevelSymbol := (declWithTopLevelSymbol p1)(decl_node decl \<mapsto> fn),
                  pureDeclarators := insert (decl_node decl) (pureDeclarators p1)\<rparr>"
  have ex: "list_ex pureComment (getComments parser (snd idRange, fst (expression_range init)))"
    using assms(6,7) by (auto simp: list_ex_iff)
  have pre: "preDeclarator decl parser = (True, parser1)"
    using assms(1-5) ex tv by (simp add: preDeclarator_def parser1_def)
  have g1: "harmonyInnerGraph parser1 = Some innerGraph"
    using tagVar_keeps[of name parser] tv assms(8) by (simp add: parser1_def)
  define dep where
    "dep = PureExpressionDependency (allocated parser1) (expression_range init) (decl_loc decl)"
  define parser2 where
    "parser2 = parser1\<lparr>
        allocated := Suc (allocated parser1),
        moduleDependencies := moduleDependencies parser1 @ [dep],
        harmonyInnerGraph :=
          Some (graph_set (DependencyKey dep) (Some (InfoSet [Sym fn])) innerGraph),
        harmonyAllExportDependentDependencies :=
          set_add dep (harmonyAllExportDependentDependencies parser1),
        currentTopLevelSymbol := Some fn\<rparr>"
  have ent: "declaratorEnter decl fn parser1 = Inr parser2"
    using assms(3) g1
    by (simp add: declaratorEnter_def parser1_def parser2_def dep_def Let_def)
  have "declWithTopLevelSymbol parser1 (decl_node decl) = Some fn"
    and "decl_node decl \<in> pureDeclarators parser1"
    by (simp_all add: parser1_def)
  moreover have "dep_range dep = expression_range init"
    by (simp add: dep_def)
  moreover have "dep \<in> set (moduleDependencies parser2)"
    and "dep \<in> set (harmonyAllExportDependentDependencies parser2)"
    by (simp_all add: parser2_def set_add_def)
  moreover have "harmonyInnerGraph parser2 =
      Some (graph_set (DependencyKey dep) (Some (InfoSet [Sym fn])) innerGraph)"
    by (simp add: parser2_def)
  moreover have "graph_get (graph_set (DependencyKey dep) (Some (InfoSet [Sym fn])) innerGraph)
      (DependencyKey dep) = Some (InfoSet [Sym fn])"
    by (simp add: graph_get_graph_set)
  ultimately show ?thesis using pre ent by blast
qed

text \<open>
  In a gap of 9 characters or fewer the comments are not asked for: an initializer
  that is neither pure by its shape nor a function or class expression is not
  tracked, whatever \<open>getComments\<close> would answer.
\<close>

lemma small_gap_ignored:
  assumes "decl_id decl = BindingIdentifier name idRange"
    and "decl_init decl = Some init"
    and "\<not> functionOrClassExpression init"
    and "\<not> isPure init"
    and "fst (expression_range init) - snd idRange \<le> 9"
  shows "preDeclarator decl parser = (False, parser)"
  using assms by (simp add: preDeclarator_def split: bool.splits)

text \<open>
  A function, arrow function or class expression is tracked as a symbol and is not a
  pure declarator, with or without pragma and whatever the gap: the \<open>declarator\<close>
  handler only sets the current symbol for it.
\<close>

lemma function_initializer_tracked:
  assumes "topLevelScope parser"
    and "decl_id decl = BindingIdentifier name idRange"
    and "decl_init decl = Some init"
    and "functionOrClassExpression init"
    and "decl_node decl \<notin> pureDeclarators parser"
  shows "\<exists>fn parser1.
           preDeclarator decl parser = (True, parser1) \<and>
           declWithTopLevelSymbol parser1 (decl_node decl) = Some fn \<and>
           decl_node decl \<notin> pureDeclarators parser1 \<and>
           harmonyInnerGraph parser1 = harmonyInnerGraph parser \<and>
           harmonyAllExportDependentDependencies parser1 =
             harmonyAllExportDependentDependencies parser \<and>
           moduleDependencies parser1 = moduleDependencies parser \<and>
           declaratorEnter decl fn parser1 = Inr (parser1\<lparr>currentTopLevelSymbol := Some fn\<rparr>)"
proof -
  obtain fn p1 where tv: "tagVar name parser = (fn, p1)"
    by (cases "tagVar name parser")
  define parser1 where
    "parser1 = p1\<lparr>declWithTopLevelSymbol := (declWithTopLevelSymbol p1)(decl_node decl \<mapsto> fn)\<rparr>"
  have pre: "preDeclarator decl parser = (True, parser1)"
    using assms(1-4) tv by (simp add: preDeclarator_def parser1_def)
  have keep: "pureDeclarators parser1 = pureDeclarators parser"
    "harmonyInnerGraph parser1 = harmonyInnerGraph parser"
    "harmonyAllExportDependentDependencies parser1 = harmonyAllExportDependentDependencies parser"
    "moduleDependencies parser1 = moduleDependencies parser"
    using tagVar_keeps[of name parser] tv by (simp_all add: parser1_def)
  have notpure: "decl_node decl \<notin> pureDeclarators parser1"
    using keep(1) assms(5) by simp
  have "declaratorEnter decl fn parser1 = Inr (parser1\<lparr>currentTopLevelSymbol := Some fn\<rparr>)"
    using notpure by (simp add: declaratorEnter_def)
  moreover have "declWithTopLevelSymbol parser1 (decl_node decl) = Some fn"
    by (simp add: parser1_def)
  ultimately show ?thesis using pre notpure keep by blast
qed

text \<open>
  C2, as the code has it, for a top-level declarator whose binding is an identifier
  and that has an initializer.
  \<^item> The pragma is looked for only when more than 9 characters lie between the end of
    the binding identifier and the start of the initializer (line 217). With a block
    comment matching the pragma in such a gap, and an initializer that is not a
    function, arrow function or class expression, whatever else its shape, the
    \<open>preDeclarator\<close> handler returns \<open>true\<close> and records the declarator as pure with the
    symbol of its name; the \<open>declarator\<close> handler then creates a dependency on the
    range of the initializer, adds it to the module and to the pending set, and
    enters it into the graph with the symbol as its only member.
  \<^item> With a gap of 9 characters or fewer the comments are not consulted: an
    initializer that is neither pure by shape nor a function or class expression is
    not tracked, and the state is left as it is, whatever comment the parser would
    report.
  \<^item> A function, arrow function or class expression (lines 206--215) is tracked as a
    symbol, with any gap and any comment, and not as a pure declarator: the graph, the
    pending set and the dependencies of the module stay as they are, and the
    \<open>declarator\<close> handler only sets the current symbol.
\<close>

theorem pragma_declarator_tracked:
  assumes "topLevelScope parser"
    and "decl_id decl = BindingIdentifier name idRange"
    and "decl_init decl = Some init"
  shows
    "(\<not> functionOrClassExpression init \<and>
      fst (expression_range init) - snd idRange > 9 \<and>
      comment \<in> set (getComments parser (snd idRange, fst (expression_range init))) \<and>
      pureComment comment \<and>
      harmonyInnerGraph parser = Some innerGraph
      \<longrightarrow>
      (\<exists>fn parser1 parser2 dep innerGraph2.
         preDeclarator decl parser = (True, parser1) \<and>
         declWithTopLevelSymbol parser1 (decl_node decl) = Some fn \<and>
         decl_node decl \<in> pureDeclarators parser1 \<and>
         declaratorEnter decl fn parser1 = Inr parser2 \<and>
         dep_range dep = expression_range init \<and>
         dep \<in> set (moduleDependencies parser2) \<and>
         dep \<in> set (harmonyAllExportDependentDependencies parser2) \<and>
         harmonyInnerGraph parser2 = Some innerGraph2 \<and>
         graph_get innerGraph2 (DependencyKey dep) = Some (InfoSet [Sym fn]))) \<and>
     (\<not> functionOrClassExpression init \<and> \<not> isPure init \<and>
      fst (expression_range init) - snd idRange \<le> 9
      \<longrightarrow>
      preDeclarator decl parser = (False, parser)) \<and>
     (\<not> functionOrClassExpression init \<and> \<not> isPure init \<and>
      fst (expression_range init) - snd idRange \<le> 9 \<and>
      declWithTopLevelSymbol parser (decl_node decl) = None
      \<longrightarrow>
      declarator walkExpression decl (snd (preDeclarator decl parser)) = Inr (False, parser)) \<and>
     (functionOrClassExpression init \<and> decl_node decl \<notin> pureDeclarators parser
      \<longrightarrow>
      (\<exists>fn parser1.
         preDeclarator decl parser = (True, parser1) \<and>
         declWithTopLevelSymbol parser1 (decl_node decl) = Some fn \<and>
         decl_node decl \<notin> pureDeclarators parser1 \<and>
         harmonyInnerGraph parser1 = harmonyInnerGraph parser \<and>
         harmonyAllExportDependentDependencies parser1 =
           harmonyAllExportDependentDependencies parser \<and>
         moduleDependencies parser1 = moduleDependencies parser \<and>
         declaratorEnter decl fn parser1 = Inr (parser1\<lparr>currentTopLevelSymbol := Some fn\<rparr>)))"
proof (intro conjI impI)
  assume "\<not> functionOrClassExpression init \<and>
      fst (expression_range init) - snd idRange > 9 \<and>
      comment \<in> set (getComments parser (snd idRange, fst (expression_range init))) \<and>
      pureComment comment \<and>
      harmonyInnerGraph parser = Some innerGraph"
  then show "\<exists>fn parser1 parser2 dep innerGraph2.
         preDeclarator decl parser = (True, parser1) \<and>
         declWithTopLevelSymbol parser1 (decl_node decl) = Some fn \<and>
         decl_node decl \<in> pureDeclarators parser1 \<and>
         declaratorEnter decl fn parser1 = Inr parser2 \<and>
         dep_range dep = expression_range init \<and>
         dep \<in> set (moduleDependencies parser2) \<and>
         dep \<in> set (harmonyAllExportDependentDependencies parser2) \<and>
         harmonyInnerGraph parser2 = Some innerGraph2 \<and>
         graph_get innerGraph2 (DependencyKey dep) = Some (InfoSet [Sym fn])"
    using pragma_accepted[OF assms, of comment innerGraph] by blast
next
  assume "\<not> functionOrClassExpression init \<and> \<not> isPure init \<and>
      fst (expression_range init) - snd idRange \<le> 9"
  then show "preDeclarator decl parser = (False, parser)"
    using small_gap_ignored[OF assms(2,3)] by blast
next
  assume h: "\<not> functionOrClassExpression init \<and> \<not> isPure init \<and>
      fst (expression_range init) - snd idRange \<le> 9 \<and>
      declWithTopLevelSymbol parser (decl_node decl) = None"
  then have "preDeclarator decl parser = (False, parser)"
    using small_gap_ignored[OF assms(2,3)] by blast
  then show "declarator walkExpression decl (snd (preDeclarator decl parser)) =
      Inr (False, parser)"
    using h by (simp add: declarator_def)
next
  assume "functionOrClassExpression init \<and> decl_node decl \<notin> pureDeclarators parser"
  then show "\<exists>fn parser1.
         preDeclarator decl parser = (True, parser1) \<and>
         declWithTopLevelSymbol parser1 (decl_node decl) = Some fn \<and>
         decl_node decl \<notin> pureDeclarators parser1 \<and>
         harmonyInnerGraph parser1 = harmonyInnerGraph parser \<and>
         harmonyAllExportDependentDependencies parser1 =
           harmonyAllExportDependentDependencies parser \<and>
         moduleDependencies parser1 = moduleDependencies parser \<and>
         declaratorEnter decl fn parser1 = Inr (parser1\<lparr>currentTopLevelSymbol := Some fn\<rparr>)"
    using function_initializer_tracked[OF assms] by blast
qed

text \<open>
  The three parts at \<^verbatim>\<open>var a = /* @__PURE__ */ f()\<close> (gap 19, comment in the gap),
  at \<^verbatim>\<open>var /* @__PURE__ */ a = f()\<close> (gap 3) and at
  \<^verbatim>\<open>var a = /* @__PURE__ */ function () {}\<close>.
\<close>

theorem pragma_declarator_tracked_witness:
  "topLevelScope (module_start (comments_in [pragma_in_gap])) \<and>
   decl_id call_far = BindingIdentifier ''a'' (4, 5) \<and>
   decl_init call_far = Some (CallExpression (24, 27)) \<and>
   \<not> functionOrClassExpression (CallExpression (24, 27)) \<and>
   \<not> isPure (CallExpression (24, 27)) \<and>
   fst (expression_range (CallExpression (24, 27))) - snd (4 :: int, 5 :: int) > 9 \<and>
   getComments (module_start (comments_in [pragma_in_gap])) (5, 24) = [pragma_in_gap] \<and>
   pureComment pragma_in_gap \<and>
   harmonyInnerGraph (module_start (comments_in [pragma_in_gap])) = Some [] \<and>
   (\<exists>fn parser1 parser2 dep innerGraph2.
      preDeclarator call_far (module_start (comments_in [pragma_in_gap])) = (True, parser1) \<and>
      declWithTopLevelSymbol parser1 (decl_node call_far) = Some fn \<and>
      decl_node call_far \<in> pureDeclarators parser1 \<and>
      declaratorEnter call_far fn parser1 = Inr parser2 \<and>
      dep_range dep = expression_range (CallExpression (24, 27)) \<and>
      dep \<in> set (moduleDependencies parser2) \<and>
      dep \<in> set (harmonyAllExportDependentDependencies parser2) \<and>
      harmonyInnerGraph parser2 = Some innerGraph2 \<and>
      graph_get innerGraph2 (DependencyKey dep) = Some (InfoSet [Sym fn])) \<and>
   topLevelScope (module_start (comments_in [pragma_before_binding])) \<and>
   decl_id call_pragma_first = BindingIdentifier ''a'' (20, 21) \<and>
   decl_init call_pragma_first = Some (CallExpression (24, 27)) \<and>
   fst (expression_range (CallExpression (24, 27))) - snd (20 :: int, 21 :: int) \<le> 9 \<and>
   declWithTopLevelSymbol (module_start (comments_in [pragma_before_binding]))
     (decl_node call_pragma_first) = None \<and>
   preDeclarator call_pragma_first (module_start (comments_in [pragma_before_binding])) =
     (False, module_start (comments_in [pragma_before_binding])) \<and>
   declarator skip_walk call_pragma_first
     (snd (preDeclarator call_pragma_first (module_start (comments_in [pragma_before_binding])))) =
     Inr (False, module_start (comments_in [pragma_before_binding])) \<and>
   decl_id function_far = BindingIdentifier ''a'' (4, 5) \<and>
   decl_init function_far = Some (FunctionExpression (24, 38)) \<and>
   functionOrClassExpression (FunctionExpression (24, 38)) \<and>
   decl_node function_far \<notin> pureDeclarators (module_start (comments_in [pragma_in_gap])) \<and>
   (\<exists>fn parser1.
      preDeclarator function_far (module_start (comments_in [pragma_in_gap])) = (True, parser1) \<and>
      declWithTopLevelSymbol parser1 (decl_node function_far) = Some fn \<and>
      decl_node function_far \<notin> pureDeclarators parser1 \<and>
      harmonyInnerGraph parser1 = Some [] \<and>
      harmonyAllExportDependentDependencies parser1 = [] \<and>
      moduleDependencies parser1 = [] \<and>
      declaratorEnter function_far fn parser1 = Inr (parser1\<lparr>currentTopLevelSymbol := Some fn\<rparr>))"
proof -
  have a: "topLevelScope (module_start cs)" for cs
    by (simp add: module_start_def program_def)
  have b: "decl_id call_far = BindingIdentifier ''a'' (4, 5)"
    and c: "decl_init call_far = Some (CallExpression (24, 27))"
    by (simp_all add: call_far_def)
  have d: "\<not> functionOrClassExpression (CallExpression (24, 27))"
    and d': "\<not> isPure (CallExpression (24, 27))"
    by simp_all
  have e: "fst (expression_range (CallExpression (24, 27))) - snd (4 :: int, 5 :: int) > 9"
    by simp
  have f': "getComments (module_start (comments_in [pragma_in_gap])) (5, 24) = [pragma_in_gap]"
    by (simp add: module_start_def program_def comments_in_def pragma_in_gap_def)
  then have f: "pragma_in_gap
      \<in> set (getComments (module_start (comments_in [pragma_in_gap]))
                (snd (4 :: int, 5 :: int), fst (expression_range (CallExpression (24, 27)))))"
    by simp
  have g: "pureComment pragma_in_gap"
    by (simp add: pureComment_def pragma_in_gap_def purePragma_example)
  have h: "harmonyInnerGraph (module_start cs) = Some []"
    and h': "harmonyAllExportDependentDependencies (module_start cs) = []"
    and h'': "moduleDependencies (module_start cs) = []"
    and i: "declWithTopLevelSymbol (module_start cs) n = None"
    and j: "n \<notin> pureDeclarators (module_start cs)" for cs n
    by (simp_all add: module_start_def program_def)
  have k: "decl_id call_pragma_first = BindingIdentifier ''a'' (20, 21)"
    and l: "decl_init call_pragma_first = Some (CallExpression (24, 27))"
    by (simp_all add: call_pragma_first_def)
  have m: "fst (expression_range (CallExpression (24, 27))) - snd (20 :: int, 21 :: int) \<le> 9"
    by simp
  have n: "decl_id function_far = BindingIdentifier ''a'' (4, 5)"
    and o: "decl_init function_far = Some (FunctionExpression (24, 38))"
    by (simp_all add: function_far_def)
  have p: "functionOrClassExpression (FunctionExpression (24, 38))"
    by simp
  note first =
    pragma_declarator_tracked[OF a[of "comments_in [pragma_in_gap]"] b c,
      where comment = pragma_in_gap and innerGraph = "[]"]
  note second =
    pragma_declarator_tracked[OF a[of "comments_in [pragma_before_binding]"] k l,
      where walkExpression = skip_walk]
  note third = pragma_declarator_tracked[OF a[of "comments_in [pragma_in_gap]"] n o]
  have one: "\<exists>fn parser1 parser2 dep innerGraph2.
      preDeclarator call_far (module_start (comments_in [pragma_in_gap])) = (True, parser1) \<and>
      declWithTopLevelSymbol parser1 (decl_node call_far) = Some fn \<and>
      decl_node call_far \<in> pureDeclarators parser1 \<and>
      declaratorEnter call_far fn parser1 = Inr parser2 \<and>
      dep_range dep = expression_range (CallExpression (24, 27)) \<and>
      dep \<in> set (moduleDependencies parser2) \<and>
      dep \<in> set (harmonyAllExportDependentDependencies parser2) \<and>
      harmonyInnerGraph parser2 = Some innerGraph2 \<and>
      graph_get innerGraph2 (DependencyKey dep) = Some (InfoSet [Sym fn])"
    using first d e f g h by blast
  have two: "preDeclarator call_pragma_first (module_start (comments_in [pragma_before_binding])) =
       (False, module_start (comments_in [pragma_before_binding]))"
    and two': "declarator skip_walk call_pragma_first
       (snd (preDeclarator call_pragma_first (module_start (comments_in [pragma_before_binding])))) =
       Inr (False, module_start (comments_in [pragma_before_binding]))"
    using second d d' m i by blast+
  have three: "\<exists>fn parser1.
      preDeclarator function_far (module_start (comments_in [pragma_in_gap])) = (True, parser1) \<and>
      declWithTopLevelSymbol parser1 (decl_node function_far) = Some fn \<and>
      decl_node function_far \<notin> pureDeclarators parser1 \<and>
      harmonyInnerGraph parser1 = Some [] \<and>
      harmonyAllExportDependentDependencies parser1 = [] \<and>
      moduleDependencies parser1 = [] \<and>
      declaratorEnter function_far fn parser1 = Inr (parser1\<lparr>currentTopLevelSymbol := Some fn\<rparr>)"
    using third p j[of "decl_node function_far" "comments_in [pragma_in_gap]"]
      h[of "comments_in [pragma_in_gap]"] h'[of "comments_in [pragma_in_gap]"]
      h''[of "comments_in [pragma_in_gap]"]
    by auto
  show ?thesis
    using a b c d d' e f' g h i j k l m n o p one two two' three by simp
qed

text \<open>
  C2, as the specification words it, fails. In \<^verbatim>\<open>var /* @__PURE__ */ a = f()\<close> the
  pragma comment precedes the initializer and 3 characters lie between the binding
  and the initializer: the parser is not asked for comments, the call is not tracked
  and the state is left as it is, so that no dependency exists. In
  \<^verbatim>\<open>var /* @__PURE__ */ a = function () {}\<close>, with the same comment and the same gap,
  the function expression is tracked as a symbol, is not a pure declarator, and the
  \<open>declarator\<close> handler creates no dependency for it.
\<close>

theorem pragma_gap_counterexample:
  "topLevelScope (module_start (comments_in [pragma_before_binding])) \<and>
   decl_id call_pragma_first = BindingIdentifier ''a'' (20, 21) \<and>
   decl_init call_pragma_first = Some (CallExpression (24, 27)) \<and>
   pureComment pragma_before_binding \<and>
   snd (comment_range pragma_before_binding) \<le> (24 :: int) \<and>
   (24 :: int) - 21 \<le> 9 \<and>
   preDeclarator call_pragma_first (module_start (comments_in [pragma_before_binding])) =
     (False, module_start (comments_in [pragma_before_binding])) \<and>
   declarator skip_walk call_pragma_first (module_start (comments_in [pragma_before_binding])) =
     Inr (False, module_start (comments_in [pragma_before_binding])) \<and>
   harmonyAllExportDependentDependencies (module_start (comments_in [pragma_before_binding])) = [] \<and>
   decl_id function_pragma_first = BindingIdentifier ''a'' (20, 21) \<and>
   decl_init function_pragma_first = Some (FunctionExpression (24, 38)) \<and>
   fst (preDeclarator function_pragma_first
          (module_start (comments_in [pragma_before_binding]))) \<and>
   decl_node function_pragma_first \<notin>
     pureDeclarators
       (snd (preDeclarator function_pragma_first
               (module_start (comments_in [pragma_before_binding])))) \<and>
   \<not> isl (declarator skip_walk function_pragma_first
            (snd (preDeclarator function_pragma_first
                    (module_start (comments_in [pragma_before_binding]))))) \<and>
   harmonyAllExportDependentDependencies
     (snd (projr (declarator skip_walk function_pragma_first
        (snd (preDeclarator function_pragma_first
                (module_start (comments_in [pragma_before_binding]))))))) = [] \<and>
   moduleDependencies
     (snd (projr (declarator skip_walk function_pragma_first
        (snd (preDeclarator function_pragma_first
                (module_start (comments_in [pragma_before_binding]))))))) = []"
  by (simp add: module_start_def program_def comments_in_def
      pragma_before_binding_def call_pragma_first_def function_pragma_first_def
      pureComment_def purePragma_example preDeclarator_def declarator_def
      declaratorEnter_def skip_walk_def tagVar_def defineVariable_def getTagData_def
      new_TopLevelSymbol_def tagVariable_def Let_def set_add_def)

subsection \<open>References\<close>

text \<open>
  C8. A reference that resolves to a tagged symbol calls \<open>addDependency\<close> on that
  symbol, with the current top-level symbol when there is one and with \<open>true\<close>
  otherwise; the handler does not look at the scope, so this holds at any depth. In
  particular, in a top-level statement that has no symbol of its own the \<open>statement\<close>
  handler clears the current symbol, a reference in it makes the value of the
  referenced symbol \<open>true\<close>, and the value is still \<open>true\<close> in the flattened graph that
  the \<open>finish\<close> hook stores.
\<close>

theorem reference_adds_dependency:
  assumes "harmonyInnerGraph parser = Some innerGraph"
  shows "expression topLevelSymbol parser =
           Inr (parser\<lparr>harmonyInnerGraph :=
                  Some (addDependency topLevelSymbol
                          (case currentTopLevelSymbol parser of
                             Some current \<Rightarrow> DepItem (Sym current)
                           | None \<Rightarrow> DepTrue)
                          innerGraph)\<rparr>) \<and>
         (topLevelScope parser \<and> statementWithTopLevelSymbol parser (statement_node stmt) = None
            \<longrightarrow>
          (\<exists>parser' innerGraph'.
             expression topLevelSymbol (statement stmt parser) = Inr parser' \<and>
             harmonyInnerGraph parser' = Some innerGraph' \<and>
             innerGraph' = addDependency topLevelSymbol DepTrue innerGraph \<and>
             graph_get innerGraph' (SymbolKey topLevelSymbol) = Some InfoTrue \<and>
             harmonyInnerGraph (finish parser') = Some (flatten innerGraph') \<and>
             graph_get (flatten innerGraph') (SymbolKey topLevelSymbol) = Some InfoTrue))"
proof -
  have t: "graph_get (addDependency topLevelSymbol DepTrue innerGraph) (SymbolKey topLevelSymbol)
      = Some InfoTrue"
    by (simp add: addDependency_def graph_get_graph_set)
  show ?thesis
    using assms t flatten_keeps_true[OF t]
    by (auto simp: expression_def statement_def finish_def Let_def)
qed

theorem reference_adds_dependency_witness:
  "harmonyInnerGraph inside_b = Some [] \<and>
   currentTopLevelSymbol inside_b = Some sym_b \<and>
   expression sym_a inside_b =
     Inr (inside_b\<lparr>harmonyInnerGraph := Some [(SymbolKey sym_a, Some (InfoSet [Sym sym_b]))]\<rparr>) \<and>
   harmonyInnerGraph (module_start no_comments) = Some [] \<and>
   topLevelScope (module_start no_comments) \<and>
   statementWithTopLevelSymbol (module_start no_comments) (statement_node (OtherStatement 7)) = None \<and>
   (\<exists>parser'.
      expression sym_a (statement (OtherStatement 7) (module_start no_comments)) = Inr parser' \<and>
      harmonyInnerGraph parser' = Some [(SymbolKey sym_a, Some InfoTrue)] \<and>
      harmonyInnerGraph (finish parser') = Some (flatten [(SymbolKey sym_a, Some InfoTrue)]) \<and>
      graph_get (flatten [(SymbolKey sym_a, Some InfoTrue)]) (SymbolKey sym_a) = Some InfoTrue)"
proof -
  have a: "harmonyInnerGraph inside_b = Some []"
    and b: "currentTopLevelSymbol inside_b = Some sym_b"
    by (simp_all add: inside_b_def module_start_def program_def)
  have c: "harmonyInnerGraph (module_start no_comments) = Some []"
    and d: "topLevelScope (module_start no_comments)"
    and e: "statementWithTopLevelSymbol (module_start no_comments) n = None" for n
    by (simp_all add: module_start_def program_def)
  have f: "addDependency sym_a (DepItem (Sym sym_b)) [] = [(SymbolKey sym_a, Some (InfoSet [Sym sym_b]))]"
    and g: "addDependency sym_a DepTrue [] = [(SymbolKey sym_a, Some InfoTrue)]"
    by (simp_all add: addDependency_def)
  show ?thesis
    using reference_adds_dependency[OF a, of sym_a "OtherStatement 7"]
      reference_adds_dependency[OF c, of sym_a "OtherStatement 7"]
      a b c d e f g
    by auto
qed

subsection \<open>Publication\<close>

lemma publish_apply:
  "publish deps g used d =
     (if d \<in> set deps then Some (usageOf (graph_get g (DependencyKey d))) else used d)"
  by (induction deps arbitrary: used) auto

text \<open>
  C9. The \<open>finish\<close> hook gives every pending dependency one decision, read from the
  flattened graph: \<open>false\<close> for an unset value, \<open>true\<close> for \<open>true\<close>, and for a set that
  very set, whose members are all strings. A dependency that is not pending keeps
  what it had.
\<close>

theorem finish_publishes:
  assumes "harmonyInnerGraph parser = Some innerGraph"
    and "d \<in> set (harmonyAllExportDependentDependencies parser)"
  shows "usedByExports (finish parser) d =
           Some (case graph_get (flatten innerGraph) (DependencyKey d) of
                   None \<Rightarrow> UsedFalse
                 | Some InfoTrue \<Rightarrow> UsedTrue
                 | Some (InfoSet exportNames) \<Rightarrow> UsedSet exportNames) \<and>
         flat_value (graph_get (flatten innerGraph) (DependencyKey d)) \<and>
         (d' \<notin> set (harmonyAllExportDependentDependencies parser) \<longrightarrow>
            usedByExports (finish parser) d' = usedByExports parser d')"
  using assms
  by (simp add: finish_def Let_def publish_apply usageOf_def flatten_flat)

theorem finish_publishes_witness:
  "harmonyInnerGraph module_end =
     Some [(DependencyKey dep_a, Some (InfoSet [Sym sym_a])),
           (SymbolKey sym_a, Some (InfoSet [Sym sym_bar])),
           (SymbolKey sym_bar, Some (InfoSet [Str ''bar'']))] \<and>
   dep_a \<in> set (harmonyAllExportDependentDependencies module_end) \<and>
   PureExpressionDependency 5 (0, 1) 0 \<notin> set (harmonyAllExportDependentDependencies module_end) \<and>
   usedByExports (finish module_end) dep_a = Some (UsedSet [Str ''bar'']) \<and>
   usedByExports (finish module_end) (PureExpressionDependency 5 (0, 1) 0) = None"
proof -
  have a: "harmonyInnerGraph module_end =
     Some [(DependencyKey dep_a, Some (InfoSet [Sym sym_a])),
           (SymbolKey sym_a, Some (InfoSet [Sym sym_bar])),
           (SymbolKey sym_bar, Some (InfoSet [Str ''bar'']))]"
    and b: "dep_a \<in> set (harmonyAllExportDependentDependencies module_end)"
    and c: "PureExpressionDependency 5 (0, 1) 0
              \<notin> set (harmonyAllExportDependentDependencies module_end)"
    and d: "usedByExports module_end (PureExpressionDependency 5 (0, 1) 0) = None"
    by (simp_all add: module_end_def module_start_def program_def dep_a_def)
  have e: "graph_get (flatten [(DependencyKey dep_a, Some (InfoSet [Sym sym_a])),
           (SymbolKey sym_a, Some (InfoSet [Sym sym_bar])),
           (SymbolKey sym_bar, Some (InfoSet [Str ''bar'']))]) (DependencyKey dep_a)
         = Some (InfoSet [Str ''bar''])"
    by (simp add: flatten_def flatten_state_def graph_keys_def expand.simps set_add_def
        set_delete_def dep_a_def sym_a_def sym_bar_def)
  show ?thesis
    using finish_publishes[OF a b, of "PureExpressionDependency 5 (0, 1) 0"] a b c d e
    by simp
qed

end
